theory Spec2Isabelle
  imports Complex_Main
begin

section \<open>Data model\<close>

text \<open>
  The scorer lives in \<^verbatim>\<open>server/lib/openai.ts\<close>. Its two module-level tables are
  JavaScript \<^verbatim>\<open>Map\<close>s keyed by strings; here they are partial maps that every
  operation takes and returns. JavaScript numbers are modelled exactly: the feedback
  counters and the confidence adjustment, which only ever hold small integers, as
  \<^typ>\<open>int\<close>; prices, volatilities, weights and scores as \<^typ>\<open>real\<close>. Rounding error
  of IEEE doubles, and counters beyond \<open>2^53\<close>, are outside the model. Two places meet
  numbers that are not finite, and are modelled with them: the weight normalisation of
  the pattern selector, which divides by a value that can be zero, and the wrapper
  \<^verbatim>\<open>analyzeChart\<close>, which receives the numbers of the external analyzer.
  A \<^verbatim>\<open>Date\<close> is a number of milliseconds, read from a clock that the caller passes in;
  a call of \<^verbatim>\<open>Math.random()\<close> is a real number that the caller passes in, and lies in
  \<open>[0, 1)\<close>.
\<close>

type_synonym date = nat

definition isRandom :: "real \<Rightarrow> bool" where
  "isRandom r = (0 \<le> r \<and> r < 1)"

text \<open>\<^verbatim>\<open>Math.round\<close>: the nearest integer, a half rounded up.\<close>

definition js_round :: "real \<Rightarrow> real" where
  "js_round x = of_int \<lfloor>x + 1 / 2\<rfloor>"

text \<open>\<^verbatim>\<open>Math.floor\<close>.\<close>

definition js_floor :: "real \<Rightarrow> real" where
  "js_floor x = of_int \<lfloor>x\<rfloor>"

text \<open>A JavaScript number: a finite number, an infinity or \<^verbatim>\<open>NaN\<close>.\<close>

datatype jsnum = Fin real | PosInf | NegInf | NaN

text \<open>
  The object that an analyzer returns to \<^verbatim>\<open>analyzeChart\<close> and that \<^verbatim>\<open>analyzeChart\<close>
  returns: \<^verbatim>\<open>TAnalysisResult\<close> without \<^verbatim>\<open>id\<close>, \<^verbatim>\<open>imageUrl\<close>, \<^verbatim>\<open>timestamp\<close> and
  \<^verbatim>\<open>feedback\<close>, with its three numbers as JavaScript has them. The external analyzer
  computes them with \<^verbatim>\<open>Number\<close> from the answer of the vision model, and \<^verbatim>\<open>Number\<close> of a
  text that is not a numeric literal is \<^verbatim>\<open>NaN\<close>. The fields are written with the record's
  name (\<open>jsAnalysis.confidence\<close>), the records below having fields of the same names.
\<close>

record jsAnalysis =
  pattern :: string
  prediction :: string
  confidence :: jsnum
  winRate :: jsnum
  sampleSize :: jsnum
  explanation :: string

text \<open>The value type of \<^verbatim>\<open>learnedPatterns\<close> (openai.ts, lines 65-70).\<close>

record patternData =
  confidenceAdjustment :: int
  feedbackCount :: int
  successCount :: int
  lastUpdated :: date

type_synonym learnedPatterns = "string \<rightharpoonup> patternData"

text \<open>
  The result types. \<open>recognition\<close> is what the pattern selector returns, \<open>statistics\<close>
  what the statistics blender returns, \<open>analysis\<close> is what the simulated analyzer
  \<^verbatim>\<open>analyzeChartImage\<close> returns (the fields of \<^typ>\<open>jsAnalysis\<close>, with numbers that are finite
  by construction), and \<^verbatim>\<open>TAnalysisResult\<close> and \<^verbatim>\<open>TAnalysisHistoryItem\<close> are the shared
  types. A prediction
  is the string \<^verbatim>\<open>bullish\<close> or \<^verbatim>\<open>bearish\<close>; the wrapper \<^verbatim>\<open>analyzeChart\<close> also handles other
  strings, so the field is a string. The field \<^verbatim>\<open>id\<close> is called \<open>ident\<close> here. A field
  that two records share is written with the record's name where the later record
  hides it (\<open>statistics.winRate\<close>, \<open>TAnalysisResult.feedback\<close>).
\<close>

record statistics =
  winRate :: real
  sampleSize :: real

record recognition =
  pattern :: string
  prediction :: string
  confidence :: real

record analysis = recognition +
  winRate :: real
  sampleSize :: real
  explanation :: string

record TAnalysisResult = analysis +
  ident :: string
  imageUrl :: string
  timestamp :: string
  feedback :: "bool option"

record TAnalysisHistoryItem = recognition +
  ident :: string
  imageUrl :: string
  timestamp :: string
  feedback :: "bool option"

section \<open>Feedback integrator\<close>

text \<open>
  \<^verbatim>\<open>updateLearningModel\<close> (openai.ts, lines 394-425). The function has no \<^verbatim>\<open>throw\<close>
  and no early \<^verbatim>\<open>return\<close>, so the model returns the updated table directly. \<open>d0\<close> is
  the entry that \<^verbatim>\<open>learnedPatterns.get(pattern)\<close> yields after lines 401-408, \<open>d1\<close> the
  entry after line 411, \<open>d2\<close> after lines 413-418 and \<open>d3\<close> after lines 421-422. The
  entry is mutated in place, so the table maps the pattern to \<open>d3\<close> afterwards.
\<close>

definition updateLearningModel ::
  "learnedPatterns \<Rightarrow> TAnalysisResult \<Rightarrow> bool \<Rightarrow> date \<Rightarrow> learnedPatterns" where
  "updateLearningModel learned analysis isCorrect now =
     (let d0 = (case learned (pattern analysis) of
                  None \<Rightarrow> \<lparr>confidenceAdjustment = 0, feedbackCount = 0,
                            successCount = 0, lastUpdated = now\<rparr>
                | Some d \<Rightarrow> d);
          d1 = d0\<lparr>feedbackCount := feedbackCount d0 + 1\<rparr>;
          d2 = (if isCorrect
                then d1\<lparr>successCount := successCount d1 + 1,
                        confidenceAdjustment := confidenceAdjustment d1 + 1\<rparr>
                else d1\<lparr>confidenceAdjustment := confidenceAdjustment d1 - 1\<rparr>);
          d3 = d2\<lparr>confidenceAdjustment := max (- 10) (min 10 (confidenceAdjustment d2)),
                  lastUpdated := now\<rparr>
      in learned(pattern analysis \<mapsto> d3))"

text \<open>
  A feedback event is one call: the analysis, the verdict and the clock reading.
  \<open>feedbackRun\<close> applies a sequence of calls to a table, first event first.
\<close>

type_synonym feedbackEvent = "TAnalysisResult \<times> bool \<times> date"

fun feedbackRun :: "learnedPatterns \<Rightarrow> feedbackEvent list \<Rightarrow> learnedPatterns" where
  "feedbackRun learned [] = learned"
| "feedbackRun learned ((analysis, isCorrect, now) # evs) =
     feedbackRun (updateLearningModel learned analysis isCorrect now) evs"

text \<open>An analysis as the storage layer hands it to the feedback route, for examples.\<close>

definition storedAnalysis :: "string \<Rightarrow> TAnalysisResult" where
  "storedAnalysis p =
     \<lparr>pattern = p, prediction = ''bullish'', confidence = 75,
      winRate = 70, sampleSize = 200, explanation = '''',
      TAnalysisResult.ident = ''1'',
      TAnalysisResult.imageUrl = ''data:image/png;base64,'',
      TAnalysisResult.timestamp = '''', TAnalysisResult.feedback = None\<rparr>"


section \<open>Persistent learning table\<close>

text \<open>
  A row of the \<^verbatim>\<open>pattern_learning\<close> table (shared schema): the columns of
  \<^typ>\<open>patternData\<close>, the serial key \<^verbatim>\<open>id\<close> (here \<open>rowId\<close>) and \<^verbatim>\<open>patternId\<close>. The table
  is the list of its rows in the order a \<^verbatim>\<open>select\<close> returns them. The integer columns
  are unbounded here; a value beyond the column's range would make the database call
  reject.
\<close>

record patternLearningRow = patternData +
  rowId :: int
  patternId :: int

text \<open>The key the serial column gives the next inserted row.\<close>

definition nextRowId :: "patternLearningRow list \<Rightarrow> int" where
  "nextRowId rows = fold max (map rowId rows) 0 + 1"

text \<open>
  \<^verbatim>\<open>DatabaseStorage.updatePatternLearning\<close> (storage.ts, lines 368-400). The body is one
  \<^verbatim>\<open>try\<close> whose \<^verbatim>\<open>catch\<close> only logs: when a database call rejects (\<open>dbError\<close>), the
  table is as before and the method returns normally. Otherwise the first row selected
  for the pattern, if any, provides the old values, and the update is applied to the
  rows with that row's key; with no such row a new row is inserted.
\<close>

definition updatePatternLearning ::
  "patternLearningRow list \<Rightarrow> int \<Rightarrow> bool \<Rightarrow> date \<Rightarrow> bool \<Rightarrow> patternLearningRow list" where
  "updatePatternLearning rows pid isCorrect now dbError =
     (if dbError then rows
      else case filter (\<lambda>r. patternId r = pid) rows of
        existingLearning # _ \<Rightarrow>
          map (\<lambda>r. if rowId r = rowId existingLearning
                    then r\<lparr>feedbackCount := feedbackCount existingLearning + 1,
                           successCount := (if isCorrect then successCount existingLearning + 1
                                            else successCount existingLearning),
                           confidenceAdjustment :=
                             (if isCorrect
                              then min (confidenceAdjustment existingLearning + 1) 10
                              else max (confidenceAdjustment existingLearning - 1) (- 10)),
                           lastUpdated := now\<rparr>
                    else r) rows
      | [] \<Rightarrow>
          rows @ [\<lparr>confidenceAdjustment = (if isCorrect then 1 else - 1),
                    feedbackCount = 1,
                    successCount = (if isCorrect then 1 else 0),
                    lastUpdated = now,
                    rowId = nextRowId rows, patternId = pid\<rparr>])"

text \<open>A sequence of calls: pattern key, verdict, clock reading, and whether the database fails.\<close>

fun storageRun ::
  "patternLearningRow list \<Rightarrow> (int \<times> bool \<times> date \<times> bool) list \<Rightarrow> patternLearningRow list" where
  "storageRun rows [] = rows"
| "storageRun rows ((pid, isCorrect, now, dbError) # evs) =
     storageRun (updatePatternLearning rows pid isCorrect now dbError) evs"

text \<open>The invariant of the data model, for one entry and for the two tables.\<close>

definition countersOk :: "'a patternData_scheme \<Rightarrow> bool" where
  "countersOk d = (0 \<le> successCount d \<and> successCount d \<le> feedbackCount d)"

definition learnedOk :: "learnedPatterns \<Rightarrow> bool" where
  "learnedOk learned = (\<forall>p d. learned p = Some d \<longrightarrow> countersOk d)"

definition rowsOk :: "patternLearningRow list \<Rightarrow> bool" where
  "rowsOk rows = (\<forall>r \<in> set rows. countersOk r)"


section \<open>Pattern taxonomy and pair profiles\<close>

text \<open>
  \<^verbatim>\<open>MARKET_PATTERNS\<close> (openai.ts, lines 9-47), as the list of its keys with their pattern
  lists, in the order \<^verbatim>\<open>Object.keys\<close> returns the keys.
\<close>

definition MARKET_PATTERNS :: "(string \<times> string list) list" where
  "MARKET_PATTERNS =
     [(''continuation'',
        [''Higher Highs & Higher Lows (Uptrend)'',
         ''Lower Highs & Lower Lows (Downtrend)'',
         ''Moving Average Alignment (Price above EMAs)'',
         ''Moving Average Alignment (Price below EMAs)'',
         ''Bollinger Band Squeeze'']),
      (''reversal'',
        [''Break of Structure (Failed Higher Highs)'',
         ''Break of Structure (Failed Lower Lows)'',
         ''RSI Divergence'',
         ''MACD Divergence'',
         ''Exhaustion Move (Overextension beyond Bollinger Bands)'']),
      (''consolidation'',
        [''Inside Bar Pattern'',
         ''Narrow Range Bars'',
         ''Ascending Triangle Formation'',
         ''Descending Triangle Formation'',
         ''Symmetrical Triangle Formation'']),
      (''breakout'',
        [''Range Breakout (Above Resistance)'',
         ''Range Breakout (Below Support)'',
         ''Moving Average Crossover (Bullish)'',
         ''Moving Average Crossover (Bearish)'',
         ''Volume Spike Breakout'']),
      (''candlestick'',
        [''Bullish Engulfing Pattern'',
         ''Bearish Engulfing Pattern'',
         ''Hammer Candlestick'',
         ''Inverted Hammer Candlestick'',
         ''Morning Star Pattern'',
         ''Evening Star Pattern'',
         ''Doji Formation''])]"

text \<open>Every pattern name of the taxonomy, category by category.\<close>

definition taxonomy :: "string list" where
  "taxonomy = concat (map snd MARKET_PATTERNS)"

text \<open>
  The value type of \<^verbatim>\<open>tradingPairProfile\<close> (openai.ts, lines 73-79). Its field
  \<^verbatim>\<open>lastUpdated\<close> is called \<open>pairUpdated\<close> here. \<open>patterns\<close> is the object that counts
  the occurrences of each pattern name; its keys are pattern names, and the properties
  that every JavaScript object inherits are not among them.
\<close>

record pairProfile =
  patterns :: "string \<rightharpoonup> int"
  volatility :: real
  lastSeenPrice :: real
  firstSeenDate :: date
  pairUpdated :: date

type_synonym tradingPairProfile = "string \<rightharpoonup> pairProfile"

text \<open>The return type of \<^verbatim>\<open>extractTradingInfo\<close> (openai.ts, lines 82-90).\<close>

record tradingInfo =
  pair :: string
  entry :: "real option"
  stopLoss :: "real option"
  takeProfit :: "real option"
  volume :: "string option"
  timeframe :: "string option"
  indicators :: "string list option"

text \<open>
  \<^verbatim>\<open>x || d\<close> for an optional number \<open>x\<close>: \<open>d\<close> when \<open>x\<close> is undefined or zero.
\<close>

definition orElse :: "real option \<Rightarrow> real \<Rightarrow> real" where
  "orElse x d = (case x of None \<Rightarrow> d | Some v \<Rightarrow> if v = 0 then d else v)"

text \<open>A thrown value: an \<^verbatim>\<open>Error\<close> with its message, or any other value as a string.\<close>

datatype thrown = Error string | Thrown string

text \<open>\<^verbatim>\<open>error instanceof Error ? error.message : String(error)\<close>.\<close>

fun errorMessage :: "thrown \<Rightarrow> string" where
  "errorMessage (Error message) = message"
| "errorMessage (Thrown v) = v"

section \<open>Non-finite numbers\<close>

text \<open>
  The quotient of two finite numbers in JavaScript, with a divisor that is not a
  negative zero: division by zero does not throw, it yields an infinity or \<^verbatim>\<open>NaN\<close>.
  Sums and comparisons of such values follow IEEE 754.
\<close>

definition js_div :: "real \<Rightarrow> real \<Rightarrow> jsnum" where
  "js_div a b =
     (if b \<noteq> 0 then Fin (a / b)
      else if 0 < a then PosInf
      else if a < 0 then NegInf
      else NaN)"

fun js_add :: "jsnum \<Rightarrow> jsnum \<Rightarrow> jsnum" where
  "js_add (Fin a) (Fin b) = Fin (a + b)"
| "js_add NaN _ = NaN"
| "js_add _ NaN = NaN"
| "js_add PosInf NegInf = NaN"
| "js_add NegInf PosInf = NaN"
| "js_add PosInf _ = PosInf"
| "js_add _ PosInf = PosInf"
| "js_add NegInf _ = NegInf"
| "js_add _ NegInf = NegInf"

text \<open>\<^verbatim>\<open>r <= c\<close> for a finite \<open>r\<close>.\<close>

fun js_le :: "real \<Rightarrow> jsnum \<Rightarrow> bool" where
  "js_le r (Fin c) = (r \<le> c)"
| "js_le r PosInf = True"
| "js_le r NegInf = False"
| "js_le r NaN = False"

text \<open>\<^verbatim>\<open>xs[i]\<close> for an integer \<open>i\<close>: undefined outside the array.\<close>

definition js_index :: "'a list \<Rightarrow> int \<Rightarrow> 'a option" where
  "js_index xs i = (if 0 \<le> i \<and> i < int (length xs) then Some (xs ! nat i) else None)"

section \<open>Pattern selector\<close>

text \<open>
  The weight of one pattern: the body of the \<^verbatim>\<open>patterns.map\<close> callback of
  \<^verbatim>\<open>enhancedPatternRecognition\<close> (openai.ts, lines 177-209). \<open>w1\<close> is the weight after
  the learning block (lines 182-191), \<open>w2\<close> after the pair block (lines 194-199).
\<close>

definition patternWeight ::
  "learnedPatterns \<Rightarrow> tradingPairProfile \<Rightarrow> tradingInfo \<Rightarrow> TAnalysisHistoryItem list
     \<Rightarrow> string \<Rightarrow> real" where
  "patternWeight learned profiles info historicalAnalyses p =
     (let w1 = (case learned p of
                  None \<Rightarrow> 1
                | Some patternData \<Rightarrow>
                    (let weight = 1 + real_of_int (confidenceAdjustment patternData)
                     in if feedbackCount patternData > 0
                        then weight * (0.5 + real_of_int (successCount patternData)
                                               / real_of_int (feedbackCount patternData))
                        else weight));
          w2 = (case profiles (pair info) of
                  None \<Rightarrow> w1
                | Some pairData \<Rightarrow>
                    (case patterns pairData p of
                       None \<Rightarrow> w1
                     | Some n \<Rightarrow> if n \<noteq> 0 then w1 * (1 + real_of_int n / 10) else w1));
          patternInHistory =
            length (filter (\<lambda>item. pattern item = p \<and> feedback item = Some True)
                      historicalAnalyses)
      in w2 * (1 + real patternInHistory / 10))"

definition patternWeights ::
  "learnedPatterns \<Rightarrow> tradingPairProfile \<Rightarrow> tradingInfo \<Rightarrow> TAnalysisHistoryItem list
     \<Rightarrow> string list \<Rightarrow> (string \<times> real) list" where
  "patternWeights learned profiles info historicalAnalyses ps =
     map (\<lambda>p. (p, patternWeight learned profiles info historicalAnalyses p)) ps"

text \<open>The normalisation (lines 211-216): each weight is divided by the sum of all.\<close>

definition totalWeight :: "(string \<times> real) list \<Rightarrow> real" where
  "totalWeight items = foldl (\<lambda>sum item. sum + snd item) 0 items"

definition normalizedWeights :: "(string \<times> real) list \<Rightarrow> (string \<times> jsnum) list" where
  "normalizedWeights items =
     map (\<lambda>item. (fst item, js_div (snd item) (totalWeight items))) items"

text \<open>
  The weighted random selection (lines 219-229): the loop over the normalised weights,
  with the running \<^verbatim>\<open>cumulativeWeight\<close> and the pattern selected so far.
\<close>

fun selectLoop :: "real \<Rightarrow> jsnum \<Rightarrow> (string \<times> jsnum) list \<Rightarrow> string \<Rightarrow> string" where
  "selectLoop rand cumulativeWeight [] selectedPattern = selectedPattern"
| "selectLoop rand cumulativeWeight (item # items) selectedPattern =
     (if js_le rand (js_add cumulativeWeight (snd item)) then fst item
      else selectLoop rand (js_add cumulativeWeight (snd item)) items selectedPattern)"

text \<open>
  Direction and base confidence (lines 233-254). \<open>rConfidence\<close> is the draw of line 234,
  \<open>rDirection\<close> the draw of line 247 or 253; \<open>c0\<close> is \<^verbatim>\<open>confidence\<close> after line 234 and
  \<open>c1\<close> after line 245. The guard
  \<^verbatim>\<open>pairData.lastSeenPrice && tradingInfo.entry\<close> holds when both are defined and not zero.
\<close>

definition priceSignal ::
  "tradingPairProfile \<Rightarrow> tradingInfo \<Rightarrow> real \<Rightarrow> real \<Rightarrow> string \<times> real" where
  "priceSignal profiles info rConfidence rDirection =
     (let c0 = 60 + js_floor (rConfidence * 30);
          randomDirection = (if rDirection > 0.5 then ''bullish'' else ''bearish'')
      in case profiles (pair info) of
           None \<Rightarrow> (randomDirection, c0)
         | Some pairData \<Rightarrow>
             (let (direction, c1) =
                    (case entry info of
                       None \<Rightarrow> (randomDirection, c0)
                     | Some e \<Rightarrow>
                         if lastSeenPrice pairData \<noteq> 0 \<and> e \<noteq> 0
                         then (if e > lastSeenPrice pairData then ''bullish'' else ''bearish'',
                               c0 + min (\<bar>e / lastSeenPrice pairData - 1\<bar> * 100) 10)
                         else (randomDirection, c0))
              in (direction, c1 - min (volatility pairData * 10) 15)))"

text \<open>The adjustment by what was learned about the selected pattern (lines 257-266).\<close>

definition learnedConfidence :: "learnedPatterns \<Rightarrow> string \<Rightarrow> real \<Rightarrow> real" where
  "learnedConfidence learned selectedPattern c1 =
     (case learned selectedPattern of
        None \<Rightarrow> c1
      | Some patternData \<Rightarrow>
          (let c = c1 + real_of_int (confidenceAdjustment patternData)
           in if feedbackCount patternData > 0
              then c + (real_of_int (successCount patternData)
                          / real_of_int (feedbackCount patternData) - 0.5) * 20
              else c))"

text \<open>
  \<^verbatim>\<open>enhancedPatternRecognition\<close> (openai.ts, lines 159-276). \<open>rCategory\<close> is the draw of
  line 173 and \<open>rand\<close> the draw of line 219. An index outside \<^verbatim>\<open>categories\<close> would make
  \<^verbatim>\<open>patterns\<close> undefined and \<^verbatim>\<open>patterns.map\<close> throw a \<^verbatim>\<open>TypeError\<close>, whose message
  depends on the engine. Every pattern list of \<^verbatim>\<open>MARKET_PATTERNS\<close> has a first element,
  which is \<^verbatim>\<open>patterns[0]\<close>. \<open>c1\<close> is \<^verbatim>\<open>confidence\<close> after line 254, \<open>c2\<close> after line 266.
\<close>

definition enhancedPatternRecognition ::
  "learnedPatterns \<Rightarrow> tradingPairProfile \<Rightarrow> string \<Rightarrow> tradingInfo
     \<Rightarrow> TAnalysisHistoryItem list \<Rightarrow> real \<Rightarrow> real \<Rightarrow> real \<Rightarrow> real
     \<Rightarrow> thrown + recognition" where
  "enhancedPatternRecognition learned profiles imageBase64 info historicalAnalyses
       rCategory rand rConfidence rDirection =
     (case js_index MARKET_PATTERNS \<lfloor>rCategory * real (length MARKET_PATTERNS)\<rfloor> of
        None \<Rightarrow> Inl (Error ''patterns is undefined'')
      | Some (selectedCategory, ps) \<Rightarrow>
          (let items = normalizedWeights
                         (patternWeights learned profiles info historicalAnalyses ps);
               selectedPattern = selectLoop rand (Fin 0) items (hd ps);
               (direction, c1) = priceSignal profiles info rConfidence rDirection;
               c2 = learnedConfidence learned selectedPattern c1
           in Inr \<lparr>pattern = selectedPattern, prediction = direction,
                    confidence = max 50 (min 95 c2)\<rparr>))"

section \<open>Statistics blender\<close>

text \<open>
  \<^verbatim>\<open>generatePatternStatistics\<close> (openai.ts, lines 279-321). \<open>rWin\<close> and \<open>rSample\<close> are the
  draws of lines 285 and 286. \<open>base\<close> is the pair of \<^verbatim>\<open>winRate\<close> and \<^verbatim>\<open>sampleSize\<close>
  after line 286, \<open>learnt\<close> the pair after the learning block (lines 289-301).
\<close>

definition generatePatternStatistics ::
  "learnedPatterns \<Rightarrow> string \<Rightarrow> TAnalysisHistoryItem list \<Rightarrow> real \<Rightarrow> real \<Rightarrow> statistics" where
  "generatePatternStatistics learned p historicalAnalyses rWin rSample =
     (let base = (65 + js_floor (rWin * 20), 150 + js_floor (rSample * 350));
          learnt =
            (case learned p of
               None \<Rightarrow> base
             | Some patternData \<Rightarrow>
                 if feedbackCount patternData > 0
                 then (let learnedRate = real_of_int (successCount patternData)
                                           / real_of_int (feedbackCount patternData) * 100;
                           blendFactor = min (real_of_int (feedbackCount patternData) / 10) 0.8
                       in (js_round (fst base * (1 - blendFactor) + learnedRate * blendFactor),
                           snd base + real_of_int (feedbackCount patternData)))
                 else base);
          patternHistory = filter (\<lambda>item. pattern item = p) historicalAnalyses
      in if length patternHistory > 0
         then (let correctPredictions =
                     length (filter (\<lambda>item. feedback item = Some True) patternHistory);
                   historyRate = real correctPredictions / real (length patternHistory) * 100;
                   historyFactor = min (real (length patternHistory) / 20) 0.6
               in \<lparr>statistics.winRate =
                      js_round (fst learnt * (1 - historyFactor) + historyRate * historyFactor),
                    statistics.sampleSize = snd learnt + real (length patternHistory)\<rparr>)
         else \<lparr>statistics.winRate = fst learnt, statistics.sampleSize = snd learnt\<rparr>)"

section \<open>Trading-pair profile updater\<close>

text \<open>
  Step 6 of \<^verbatim>\<open>analyzeChartImage\<close> (openai.ts, lines 468-492), with the trading
  information, the selected pattern and the clock as arguments. \<open>p1\<close> is the profile
  after the volatility block (lines 481-485), \<open>p2\<close> after lines 487-488.
\<close>

definition updatePairProfile ::
  "tradingPairProfile \<Rightarrow> tradingInfo \<Rightarrow> string \<Rightarrow> date \<Rightarrow> tradingPairProfile" where
  "updatePairProfile profiles info p now =
     (case profiles (pair info) of
        None \<Rightarrow>
          profiles(pair info \<mapsto>
            \<lparr>patterns = Map.empty, volatility = 0.02,
             lastSeenPrice = orElse (entry info) 0,
             firstSeenDate = now, pairUpdated = now\<rparr>)
      | Some pairData \<Rightarrow>
          (let p1 = (case entry info of
                       None \<Rightarrow> pairData
                     | Some e \<Rightarrow>
                         if e \<noteq> 0 \<and> lastSeenPrice pairData \<noteq> 0
                         then pairData\<lparr>volatility :=
                                volatility pairData * 0.7
                                  + \<bar>e / lastSeenPrice pairData - 1\<bar> * 0.3\<rparr>
                         else pairData);
               p2 = p1\<lparr>lastSeenPrice := orElse (entry info) (lastSeenPrice p1),
                       pairUpdated := now\<rparr>
           in profiles(pair info \<mapsto>
                p2\<lparr>patterns := (patterns p2)
                       (p \<mapsto> (case patterns p2 p of None \<Rightarrow> 0 | Some n \<Rightarrow> n) + 1)\<rparr>)))"

section \<open>The simulated analyzer and the wrapper\<close>

text \<open>
  \<^verbatim>\<open>analyzeChartImage\<close> (openai.ts, lines 431-509), returning its outcome and the
  profile table. The trading information is what \<^verbatim>\<open>extractTradingInfo\<close> returned and
  \<open>explain\<close> stands for the text that \<^verbatim>\<open>generatePriceLevels\<close> and
  \<^verbatim>\<open>createDetailedExplanation\<close> assemble; neither throws. An exception in the body is
  caught and thrown again with a prefixed message, before the profile is touched.
\<close>

definition analyzeChartImage ::
  "learnedPatterns \<Rightarrow> tradingPairProfile
     \<Rightarrow> (recognition \<Rightarrow> statistics \<Rightarrow> tradingInfo \<Rightarrow> string)
     \<Rightarrow> tradingInfo \<Rightarrow> date \<Rightarrow> real \<Rightarrow> real \<Rightarrow> real \<Rightarrow> real \<Rightarrow> real \<Rightarrow> real
     \<Rightarrow> string \<Rightarrow> TAnalysisHistoryItem list
     \<Rightarrow> (thrown + analysis) \<times> tradingPairProfile" where
  "analyzeChartImage learned profiles explain info now
       rCategory rand rConfidence rDirection rWin rSample base64Image historicalAnalyses =
     (case enhancedPatternRecognition learned profiles base64Image info historicalAnalyses
             rCategory rand rConfidence rDirection of
        Inl error \<Rightarrow>
          (Inl (Error (''Failed to analyze chart image: '' @ errorMessage error)), profiles)
      | Inr r \<Rightarrow>
          (let s = generatePatternStatistics learned (pattern r) historicalAnalyses rWin rSample
           in (Inr \<lparr>pattern = pattern r, prediction = prediction r,
                     confidence = confidence r,
                     winRate = statistics.winRate s, sampleSize = statistics.sampleSize s,
                     explanation = explain r s info\<rparr>,
               updatePairProfile profiles info (pattern r) now)))"

text \<open>\<^verbatim>\<open>toLowerCase\<close> on the letters A to Z, and \<^verbatim>\<open>includes\<close>.\<close>

definition toLowerCase :: "string \<Rightarrow> string" where
  "toLowerCase s =
     map (\<lambda>c. if 65 \<le> (of_char c :: nat) \<and> (of_char c :: nat) \<le> 90
               then char_of (of_char c + 32 :: nat) else c) s"

fun js_includes :: "string \<Rightarrow> string \<Rightarrow> bool" where
  "js_includes [] sub = (sub = [])"
| "js_includes (c # cs) sub = (take (length sub) (c # cs) = sub \<or> js_includes cs sub)"

text \<open>
  \<^verbatim>\<open>Math.round\<close>, \<^verbatim>\<open>Math.max\<close> and \<^verbatim>\<open>Math.min\<close> on JavaScript numbers: each returns
  \<^verbatim>\<open>NaN\<close> when an argument is \<^verbatim>\<open>NaN\<close>, and an infinity is rounded to itself.
\<close>

fun Math_round :: "jsnum \<Rightarrow> jsnum" where
  "Math_round (Fin x) = Fin (js_round x)"
| "Math_round PosInf = PosInf"
| "Math_round NegInf = NegInf"
| "Math_round NaN = NaN"

fun Math_max :: "jsnum \<Rightarrow> jsnum \<Rightarrow> jsnum" where
  "Math_max NaN y = NaN"
| "Math_max x NaN = NaN"
| "Math_max PosInf y = PosInf"
| "Math_max x PosInf = PosInf"
| "Math_max NegInf y = y"
| "Math_max x NegInf = x"
| "Math_max (Fin a) (Fin b) = Fin (max a b)"

fun Math_min :: "jsnum \<Rightarrow> jsnum \<Rightarrow> jsnum" where
  "Math_min NaN y = NaN"
| "Math_min x NaN = NaN"
| "Math_min NegInf y = NegInf"
| "Math_min x NegInf = NegInf"
| "Math_min PosInf y = y"
| "Math_min x PosInf = x"
| "Math_min (Fin a) (Fin b) = Fin (min a b)"

text \<open>
  The normalisation at the end of \<^verbatim>\<open>analyzeChart\<close> (chart-analyzer.ts, lines 38-63):
  the prediction (lines 39-42), then
  \<^verbatim>\<open>Math.min(100, Math.max(1, Math.round(analysis.confidence)))\<close> (line 45) and the same
  for the win rate with 50 and 90 (line 48) and the sample size with 50 and 500
  (line 51).
\<close>

definition normalizeAnalysis :: "jsAnalysis \<Rightarrow> jsAnalysis" where
  "normalizeAnalysis a =
     \<lparr>jsAnalysis.pattern = jsAnalysis.pattern a,
      jsAnalysis.prediction =
        (if jsAnalysis.prediction a \<noteq> ''bullish'' \<and> jsAnalysis.prediction a \<noteq> ''bearish''
         then (if js_includes (toLowerCase (jsAnalysis.prediction a)) ''bull''
               then ''bullish'' else ''bearish'')
         else jsAnalysis.prediction a),
      jsAnalysis.confidence =
        Math_min (Fin 100) (Math_max (Fin 1) (Math_round (jsAnalysis.confidence a))),
      jsAnalysis.winRate =
        Math_min (Fin 90) (Math_max (Fin 50) (Math_round (jsAnalysis.winRate a))),
      jsAnalysis.sampleSize =
        Math_min (Fin 500) (Math_max (Fin 50) (Math_round (jsAnalysis.sampleSize a))),
      jsAnalysis.explanation = jsAnalysis.explanation a\<rparr>"

text \<open>
  The object that \<^verbatim>\<open>analyzeChartWithOpenAI\<close> builds from the parsed answer of the vision
  model (the second file of chart-analyzer.ts, lines 166-173 there): \<open>nConfidence\<close>,
  \<open>nWinRate\<close> and \<open>nSampleSize\<close> are the values of \<^verbatim>\<open>Number(result.confidence)\<close>,
  \<^verbatim>\<open>Number(result.winRate || 65)\<close> and \<^verbatim>\<open>Number(result.sampleSize || 200)\<close>. The check
  before it (line 161) lets every answer pass whose pattern, prediction, confidence and
  explanation are truthy, so a confidence such as the text \<^verbatim>\<open>75%\<close> reaches \<^verbatim>\<open>Number\<close>,
  which makes it \<^verbatim>\<open>NaN\<close>.
\<close>

definition openaiAnalysis ::
  "string \<Rightarrow> string \<Rightarrow> jsnum \<Rightarrow> jsnum \<Rightarrow> jsnum \<Rightarrow> string \<Rightarrow> jsAnalysis" where
  "openaiAnalysis p direction nConfidence nWinRate nSampleSize ex =
     \<lparr>jsAnalysis.pattern = p,
      jsAnalysis.prediction = direction,
      jsAnalysis.confidence = Math_min (Fin 100) (Math_max (Fin 1) (Math_round nConfidence)),
      jsAnalysis.winRate = Math_min (Fin 90) (Math_max (Fin 50) (Math_round nWinRate)),
      jsAnalysis.sampleSize = Math_min (Fin 500) (Math_max (Fin 50) (Math_round nSampleSize)),
      jsAnalysis.explanation = ex\<rparr>"

text \<open>
  The analysis of the simulated analyzer as \<^verbatim>\<open>analyzeChart\<close> receives it: the same
  object, its numbers finite.
\<close>

definition received :: "analysis \<Rightarrow> jsAnalysis" where
  "received a =
     \<lparr>jsAnalysis.pattern = pattern a,
      jsAnalysis.prediction = prediction a,
      jsAnalysis.confidence = Fin (confidence a),
      jsAnalysis.winRate = Fin (winRate a),
      jsAnalysis.sampleSize = Fin (sampleSize a),
      jsAnalysis.explanation = explanation a\<rparr>"

text \<open>
  \<^verbatim>\<open>analyzeChart\<close> (chart-analyzer.ts, lines 10-68). \<open>apiKey\<close> is
  \<^verbatim>\<open>process.env.OPENAI_API_KEY\<close>; the three awaited collaborators are the outcome of
  \<^verbatim>\<open>storage.getAnalysisHistory()\<close> and the two analyzers as functions of the image and
  the history, each returning its analysis or the value it throws. Whatever is thrown
  inside the outer \<^verbatim>\<open>try\<close> is thrown again as an \<^verbatim>\<open>Error\<close> with a prefixed message.
\<close>

definition cleanImage :: "string \<Rightarrow> string" where
  "cleanImage imageBase64 =
     (if take 11 imageBase64 = ''data:image/'' then imageBase64
      else ''data:image/png;base64,'' @ imageBase64)"

definition analyzeChart ::
  "string option \<Rightarrow> (thrown + TAnalysisHistoryItem list)
     \<Rightarrow> (string \<Rightarrow> TAnalysisHistoryItem list \<Rightarrow> thrown + jsAnalysis)
     \<Rightarrow> (string \<Rightarrow> TAnalysisHistoryItem list \<Rightarrow> thrown + jsAnalysis)
     \<Rightarrow> string \<Rightarrow> thrown + jsAnalysis" where
  "analyzeChart apiKey getAnalysisHistory analyzeChartWithOpenAI simulated imageBase64 =
     (case getAnalysisHistory of
        Inl error \<Rightarrow> Inl (Error (''Failed to analyze chart: '' @ errorMessage error))
      | Inr history \<Rightarrow>
          (case (if apiKey \<noteq> None \<and> apiKey \<noteq> Some ''''
                 then (case analyzeChartWithOpenAI (cleanImage imageBase64) history of
                         Inl openaiError \<Rightarrow> simulated (cleanImage imageBase64) history
                       | Inr a \<Rightarrow> Inr a)
                 else simulated (cleanImage imageBase64) history) of
             Inl error \<Rightarrow> Inl (Error (''Failed to analyze chart: '' @ errorMessage error))
           | Inr a \<Rightarrow> Inr (normalizeAnalysis a)))"


section \<open>The blending rule as the specification words it\<close>

text \<open>
  The two blending steps of the statistics blender, written from the specification's
  sentences and not from the code, to be compared with
  \<^verbatim>\<open>generatePatternStatistics\<close>. A state is the pair of \<^verbatim>\<open>winRate\<close> and \<^verbatim>\<open>sampleSize\<close>.
  \<open>blendSpec\<close> is \<open>round(winRate*(1-b) + rate*b)\<close>.
\<close>

definition blendSpec :: "real \<Rightarrow> real \<Rightarrow> real \<Rightarrow> real" where
  "blendSpec w rate b = js_round (w * (1 - b) + rate * b)"

text \<open>
  When learning state exists for the pattern with \<open>feedbackCount > 0\<close>, \<open>winRate\<close> is
  blended with \<open>successCount / feedbackCount * 100\<close> by the factor
  \<open>min (feedbackCount / 10) 0.8\<close>, and \<open>sampleSize\<close> grows by \<open>feedbackCount\<close>.
\<close>

definition learningStepSpec :: "learnedPatterns \<Rightarrow> string \<Rightarrow> real \<times> real \<Rightarrow> real \<times> real" where
  "learningStepSpec learned p ws =
     (case learned p of
        Some d \<Rightarrow>
          if feedbackCount d > 0
          then (blendSpec (fst ws)
                  (real_of_int (successCount d) / real_of_int (feedbackCount d) * 100)
                  (min (real_of_int (feedbackCount d) / 10) 0.8),
                snd ws + real_of_int (feedbackCount d))
          else ws
      | None \<Rightarrow> ws)"

text \<open>
  When the historical outcomes with the same pattern name are non-empty, with \<open>total\<close>
  entries of which \<open>correctCount\<close> have feedback \<open>true\<close>, \<open>winRate\<close> is blended with
  \<open>correctCount / total * 100\<close> by the factor \<open>min (total / 20) 0.6\<close>, and \<open>sampleSize\<close>
  grows by \<open>total\<close>.
\<close>

definition historyStepSpec ::
  "TAnalysisHistoryItem list \<Rightarrow> string \<Rightarrow> real \<times> real \<Rightarrow> real \<times> real" where
  "historyStepSpec historicalAnalyses p ws =
     (let total = length (filter (\<lambda>item. pattern item = p) historicalAnalyses);
          correctCount =
            length (filter (\<lambda>item. pattern item = p \<and> feedback item = Some True)
                      historicalAnalyses)
      in if total > 0
         then (blendSpec (fst ws) (real correctCount / real total * 100)
                 (min (real total / 20) 0.6),
               snd ws + real total)
         else ws)"

section \<open>Example inputs\<close>

text \<open>Trading information for a pair with an entry price, and a history item.\<close>

definition pricedInfo :: "string \<Rightarrow> real \<Rightarrow> tradingInfo" where
  "pricedInfo s e =
     \<lparr>pair = s, entry = Some e, stopLoss = None, takeProfit = None,
      volume = None, timeframe = None, indicators = None\<rparr>"

definition historyItem :: "string \<Rightarrow> bool option \<Rightarrow> TAnalysisHistoryItem" where
  "historyItem p f =
     \<lparr>pattern = p, prediction = ''bullish'', confidence = 75,
      ident = ''1'', imageUrl = ''data:image/png;base64,'', timestamp = '''',
      feedback = f\<rparr>"

text \<open>The learning table after one incorrect feedback for each pattern of a list.\<close>

definition oneIncorrectEach :: "string list \<Rightarrow> learnedPatterns" where
  "oneIncorrectEach ps = feedbackRun Map.empty (map (\<lambda>p. (storedAnalysis p, False, 0)) ps)"

text \<open>
  One pair of draws (category, selection) for each pattern of the taxonomy: the middle
  of category \<open>k\<close>, and the middle of the \<open>j\<close>-th of the equal shares that the patterns
  of the category have when nothing has been learned.
\<close>

definition taxonomyDraws :: "(real \<times> real) list" where
  "taxonomyDraws =
     concat (map (\<lambda>k. map (\<lambda>j. ((2 * real k + 1) / (2 * real (length MARKET_PATTERNS)),
                                  (2 * real j + 1)
                                    / (2 * real (length (snd (MARKET_PATTERNS ! k))))))
                        [0..<length (snd (MARKET_PATTERNS ! k))])
               [0..<length MARKET_PATTERNS])"

text \<open>The pattern that an outcome of the selector carries.\<close>

definition selectedOf :: "thrown + recognition \<Rightarrow> string option" where
  "selectedOf outcome = (case outcome of Inl error \<Rightarrow> None | Inr r \<Rightarrow> Some (pattern r))"

text \<open>The selector's choice at a pair of draws, with nothing learned and no profile.\<close>

definition selectAt :: "real \<times> real \<Rightarrow> string option" where
  "selectAt d =
     selectedOf (enhancedPatternRecognition Map.empty Map.empty []
                   (pricedInfo ''BTC/USD'' 61000) [] (fst d) (snd d) (1 / 2) (3 / 10))"

text \<open>
  The occurrence count that the profile of a pair holds for a pattern: \<open>None\<close> when the
  pair has no profile or the profile has no count for the pattern.
\<close>

definition patternCount :: "tradingPairProfile \<Rightarrow> string \<Rightarrow> string \<Rightarrow> int option" where
  "patternCount profiles s p =
     (case profiles s of None \<Rightarrow> None | Some pairData \<Rightarrow> patterns pairData p)"

text \<open>
  The simulated analyzer as the wrapper sees it: its outcome for an image and a
  history, the tables, the clock and the draws being fixed.
\<close>

definition simulatedWith ::
  "learnedPatterns \<Rightarrow> tradingPairProfile
     \<Rightarrow> (recognition \<Rightarrow> statistics \<Rightarrow> tradingInfo \<Rightarrow> string)
     \<Rightarrow> tradingInfo \<Rightarrow> date \<Rightarrow> real \<Rightarrow> real \<Rightarrow> real \<Rightarrow> real \<Rightarrow> real \<Rightarrow> real
     \<Rightarrow> string \<Rightarrow> TAnalysisHistoryItem list \<Rightarrow> thrown + jsAnalysis" where
  "simulatedWith learned profiles explain info now
       rCategory rand rConfidence rDirection rWin rSample base64Image historicalAnalyses =
     (case fst (analyzeChartImage learned profiles explain info now
                  rCategory rand rConfidence rDirection rWin rSample
                  base64Image historicalAnalyses) of
        Inl error \<Rightarrow> Inl error
      | Inr a \<Rightarrow> Inr (received a))"

text \<open>
  An explanation text, an external analyzer that fails, and one that returns a given
  object.
\<close>

definition noExplanation :: "recognition \<Rightarrow> statistics \<Rightarrow> tradingInfo \<Rightarrow> string" where
  "noExplanation r s info = ''''"

definition openaiDown :: "string \<Rightarrow> TAnalysisHistoryItem list \<Rightarrow> thrown + jsAnalysis" where
  "openaiDown img history =
     Inl (Error ''Failed to analyze chart with OpenAI: Connection error.'')"

definition openaiReturns ::
  "jsAnalysis \<Rightarrow> string \<Rightarrow> TAnalysisHistoryItem list \<Rightarrow> thrown + jsAnalysis" where
  "openaiReturns a img history = Inr a"


section \<open>Properties of the feedback integrator\<close>

lemma updateLearningModel_at:
  "updateLearningModel learned a ok now (pattern a) =
     Some \<lparr>confidenceAdjustment =
             max (- 10) (min 10 ((case learned (pattern a) of None \<Rightarrow> 0
                                   | Some d \<Rightarrow> confidenceAdjustment d) + (if ok then 1 else - 1))),
           feedbackCount =
             (case learned (pattern a) of None \<Rightarrow> 0 | Some d \<Rightarrow> feedbackCount d) + 1,
           successCount =
             (case learned (pattern a) of None \<Rightarrow> 0 | Some d \<Rightarrow> successCount d)
               + (if ok then 1 else 0),
           lastUpdated = now\<rparr>"
  by (simp add: updateLearningModel_def Let_def split: option.split)

lemma updateLearningModel_other:
  "q \<noteq> pattern a \<Longrightarrow> updateLearningModel learned a ok now q = learned q"
  by (simp add: updateLearningModel_def Let_def)

lemma feedbackRun_correct_from:
  assumes "\<forall>ev \<in> set evs. pattern (fst ev) = P \<and> fst (snd ev)"
    and "learned P = Some d0"
    and "- 10 \<le> confidenceAdjustment d0" and "confidenceAdjustment d0 \<le> 10"
  shows "\<exists>d. feedbackRun learned evs P = Some d
           \<and> feedbackCount d = feedbackCount d0 + int (length evs)
           \<and> successCount d = successCount d0 + int (length evs)
           \<and> confidenceAdjustment d = min 10 (confidenceAdjustment d0 + int (length evs))"
  using assms
proof (induction evs arbitrary: learned d0)
  case Nil
  then show ?case by simp
next
  case (Cons ev evs)
  obtain a ok now where ev: "ev = (a, ok, now)" by (cases ev) auto
  from Cons.prems(1) ev have pa: "pattern a = P" and ok: "ok" by auto
  let ?learned = "updateLearningModel learned a ok now"
  let ?d1 = "\<lparr>confidenceAdjustment = min 10 (confidenceAdjustment d0 + 1),
             feedbackCount = feedbackCount d0 + 1,
             successCount = successCount d0 + 1, lastUpdated = now\<rparr>"
  have "?learned P = Some ?d1"
    using updateLearningModel_at [of learned a ok now] pa ok Cons.prems(2,3)
    by simp
  moreover have "\<forall>ev \<in> set evs. pattern (fst ev) = P \<and> fst (snd ev)"
    using Cons.prems(1) by simp
  moreover have "- 10 \<le> confidenceAdjustment ?d1" "confidenceAdjustment ?d1 \<le> 10"
    using Cons.prems(3) by simp_all
  ultimately obtain d where d: "feedbackRun ?learned evs P = Some d"
    "feedbackCount d = feedbackCount ?d1 + int (length evs)"
    "successCount d = successCount ?d1 + int (length evs)"
    "confidenceAdjustment d = min 10 (confidenceAdjustment ?d1 + int (length evs))"
    using Cons.IH [of ?learned ?d1] by blast
  have "feedbackRun learned (ev # evs) P = Some d"
    using d(1) ev by simp
  moreover have "feedbackCount d = feedbackCount d0 + int (length (ev # evs))"
    using d(2) by simp
  moreover have "successCount d = successCount d0 + int (length (ev # evs))"
    using d(3) by simp
  moreover have "confidenceAdjustment d
      = min 10 (confidenceAdjustment d0 + int (length (ev # evs)))"
    using d(4) by simp
  ultimately show ?case by blast
qed

text \<open>
  Claim C1. One call of \<^verbatim>\<open>updateLearningModel\<close> for a pattern \<open>P\<close> starts from the
  stored entry of \<open>P\<close>, or from an entry with all counters zero when there is none,
  adds 1 to \<open>feedbackCount\<close>, adds 1 to \<open>successCount\<close> exactly when \<open>isCorrect\<close>, adds
  +1 or -1 to \<open>confidenceAdjustment\<close> and clamps it to \<open>[-10, 10]\<close>; no other entry
  changes. Consequently, after \<open>N \<ge> 1\<close> consecutive correct-feedback calls for \<open>P\<close>
  from the empty table, the entry of \<open>P\<close> has \<open>feedbackCount = N\<close>,
  \<open>successCount = N\<close> and \<open>confidenceAdjustment = min N 10\<close>.
\<close>

theorem C1_feedback_counts:
  "updateLearningModel learned a ok now =
     learned(pattern a \<mapsto>
       (let d0 = (case learned (pattern a) of
                    None \<Rightarrow> \<lparr>confidenceAdjustment = 0, feedbackCount = 0,
                              successCount = 0, lastUpdated = now\<rparr>
                  | Some d \<Rightarrow> d)
        in \<lparr>confidenceAdjustment =
               max (- 10) (min 10 (confidenceAdjustment d0 + (if ok then 1 else - 1))),
             feedbackCount = feedbackCount d0 + 1,
             successCount = successCount d0 + (if ok then 1 else 0),
             lastUpdated = now\<rparr>))
   \<and> ((\<forall>ev \<in> set evs. pattern (fst ev) = P \<and> fst (snd ev)) \<and> evs \<noteq> [] \<longrightarrow>
        (\<exists>d. feedbackRun Map.empty evs P = Some d
           \<and> feedbackCount d = int (length evs)
           \<and> successCount d = int (length evs)
           \<and> confidenceAdjustment d = min (int (length evs)) 10))"
proof (intro conjI impI)
  show "updateLearningModel learned a ok now =
     learned(pattern a \<mapsto>
       (let d0 = (case learned (pattern a) of
                    None \<Rightarrow> \<lparr>confidenceAdjustment = 0, feedbackCount = 0,
                              successCount = 0, lastUpdated = now\<rparr>
                  | Some d \<Rightarrow> d)
        in \<lparr>confidenceAdjustment =
               max (- 10) (min 10 (confidenceAdjustment d0 + (if ok then 1 else - 1))),
             feedbackCount = feedbackCount d0 + 1,
             successCount = successCount d0 + (if ok then 1 else 0),
             lastUpdated = now\<rparr>))" (is "?lhs = ?rhs")
  proof (rule ext)
    fix q
    show "?lhs q = ?rhs q"
    proof (cases "q = pattern a")
      case True
      then show ?thesis
        by (simp add: updateLearningModel_at Let_def split: option.split)
    next
      case False
      then show ?thesis
        by (simp add: updateLearningModel_other)
    qed
  qed
next
  assume h: "(\<forall>ev \<in> set evs. pattern (fst ev) = P \<and> fst (snd ev)) \<and> evs \<noteq> []"
  then obtain a0 ok0 now0 rest where evs: "evs = (a0, ok0, now0) # rest"
    by (cases evs) auto
  from h evs have pa: "pattern a0 = P" and ok0: "ok0" by auto
  let ?learned = "updateLearningModel Map.empty a0 ok0 now0"
  let ?d1 = "\<lparr>confidenceAdjustment = 1, feedbackCount = 1,
             successCount = 1, lastUpdated = now0\<rparr>"
  have first: "?learned P = Some ?d1"
    using updateLearningModel_at [of Map.empty a0 ok0 now0] pa ok0 by simp
  have rest: "\<forall>ev \<in> set rest. pattern (fst ev) = P \<and> fst (snd ev)"
    using h evs by simp
  obtain d where d: "feedbackRun ?learned rest P = Some d"
    "feedbackCount d = feedbackCount ?d1 + int (length rest)"
    "successCount d = successCount ?d1 + int (length rest)"
    "confidenceAdjustment d = min 10 (confidenceAdjustment ?d1 + int (length rest))"
    using feedbackRun_correct_from [of rest P ?learned ?d1] rest first by auto
  have "feedbackRun Map.empty evs P = Some d"
    using d(1) evs by simp
  moreover have "feedbackCount d = int (length evs)" using d(2) evs by simp
  moreover have "successCount d = int (length evs)" using d(3) evs by simp
  moreover have "confidenceAdjustment d = min (int (length evs)) 10"
    using d(4) evs by simp
  ultimately show "\<exists>d. feedbackRun Map.empty evs P = Some d
           \<and> feedbackCount d = int (length evs)
           \<and> successCount d = int (length evs)
           \<and> confidenceAdjustment d = min (int (length evs)) 10"
    by blast
qed

theorem C1_feedback_counts_witness:
  "\<exists>d. feedbackRun Map.empty
          (replicate 12 (storedAnalysis ''Hammer Candlestick'', True, 0))
          ''Hammer Candlestick'' = Some d
      \<and> feedbackCount d = 12 \<and> successCount d = 12 \<and> confidenceAdjustment d = 10"
  using C1_feedback_counts
    [where evs = "replicate 12 (storedAnalysis ''Hammer Candlestick'', True, 0)"
       and P = "''Hammer Candlestick''"]
  by (simp add: storedAnalysis_def)

section \<open>The counter invariant\<close>

lemma learnedOk_updateLearningModel:
  assumes "learnedOk learned"
  shows "learnedOk (updateLearningModel learned a ok now)"
  unfolding learnedOk_def
proof (intro allI impI)
  fix p d
  assume pd: "updateLearningModel learned a ok now p = Some d"
  show "countersOk d"
  proof (cases "p = pattern a")
    case True
    show ?thesis
    proof (cases "learned (pattern a)")
      case None
      with pd True show ?thesis
        by (auto simp: updateLearningModel_at countersOk_def)
    next
      case (Some d0)
      with assms have "countersOk d0" by (simp add: learnedOk_def)
      with pd True Some show ?thesis
        by (auto simp: updateLearningModel_at countersOk_def)
    qed
  next
    case False
    with pd have "learned p = Some d" by (simp add: updateLearningModel_other)
    with assms show ?thesis by (simp add: learnedOk_def)
  qed
qed

lemma learnedOk_feedbackRun:
  "learnedOk learned \<Longrightarrow> learnedOk (feedbackRun learned evs)"
proof (induction evs arbitrary: learned)
  case Nil
  then show ?case by simp
next
  case (Cons ev evs)
  obtain a ok now where "ev = (a, ok, now)" by (cases ev) auto
  with Cons show ?case by (simp add: learnedOk_updateLearningModel)
qed

lemma rowsOk_updatePatternLearning:
  assumes "rowsOk rows"
  shows "rowsOk (updatePatternLearning rows pid ok now dbError)"
proof (cases "filter (\<lambda>r. patternId r = pid) rows")
  case Nil
  with assms show ?thesis
    by (auto simp: updatePatternLearning_def rowsOk_def countersOk_def)
next
  case (Cons e es)
  then have "e \<in> set (filter (\<lambda>r. patternId r = pid) rows)" by simp
  then have "e \<in> set rows" by simp
  with assms have "countersOk e" by (simp add: rowsOk_def)
  with assms Cons show ?thesis
    by (auto simp: updatePatternLearning_def rowsOk_def countersOk_def)
qed

lemma rowsOk_storageRun:
  "rowsOk rows \<Longrightarrow> rowsOk (storageRun rows evs)"
proof (induction evs arbitrary: rows)
  case Nil
  then show ?case by simp
next
  case (Cons ev evs)
  obtain pid ok now dbError where "ev = (pid, ok, now, dbError)" by (cases ev) auto
  with Cons show ?case by (simp add: rowsOk_updatePatternLearning)
qed

text \<open>
  Claim C5. Starting from the empty learning table, after every sequence of feedback
  calls each entry satisfies \<open>0 \<le> successCount \<le> feedbackCount\<close>. Every prefix of a
  sequence of calls is such a sequence, so this is the state after each operation. The
  same holds for the rows of the persistent table under
  \<^verbatim>\<open>DatabaseStorage.updatePatternLearning\<close>, whether or not database calls fail.
\<close>

theorem C5_success_le_feedback:
  "(feedbackRun Map.empty evs p = Some d \<longrightarrow>
      0 \<le> successCount d \<and> successCount d \<le> feedbackCount d)
   \<and> (\<forall>r \<in> set (storageRun [] devs).
        0 \<le> successCount r \<and> successCount r \<le> feedbackCount r)"
proof (intro conjI impI ballI)
  have ok: "learnedOk (feedbackRun Map.empty evs)"
    by (rule learnedOk_feedbackRun) (simp add: learnedOk_def)
  assume "feedbackRun Map.empty evs p = Some d"
  with ok have "countersOk d" by (simp add: learnedOk_def)
  then show "0 \<le> successCount d" and "successCount d \<le> feedbackCount d"
    by (simp_all add: countersOk_def)
next
  fix r
  assume r: "r \<in> set (storageRun [] devs)"
  have "rowsOk (storageRun [] devs)"
    by (rule rowsOk_storageRun) (simp add: rowsOk_def)
  with r have "countersOk r" by (simp add: rowsOk_def)
  then show "0 \<le> successCount r" and "successCount r \<le> feedbackCount r"
    by (simp_all add: countersOk_def)
qed

theorem C5_success_le_feedback_witness:
  "feedbackRun Map.empty
     [(storedAnalysis ''Doji Formation'', True, 1), (storedAnalysis ''Doji Formation'', False, 2)]
     ''Doji Formation''
     = Some \<lparr>confidenceAdjustment = 0, feedbackCount = 2, successCount = 1, lastUpdated = 2\<rparr>
   \<and> successCount \<lparr>confidenceAdjustment = 0, feedbackCount = 2, successCount = 1,
                    lastUpdated = 2::nat\<rparr> \<le> 2
   \<and> storageRun [] [(7, False, 1, False), (7, True, 2, True), (7, True, 3, False)]
     = [\<lparr>confidenceAdjustment = 0, feedbackCount = 2, successCount = 1, lastUpdated = 3,
         rowId = 1, patternId = 7\<rparr>]"
  using C5_success_le_feedback
    [of "[(storedAnalysis ''Doji Formation'', True, 1),
          (storedAnalysis ''Doji Formation'', False, 2)]"
        "''Doji Formation''"
        "\<lparr>confidenceAdjustment = 0, feedbackCount = 2, successCount = 1, lastUpdated = 2\<rparr>"
        "[(7, False, 1, False), (7, True, 2, True), (7, True, 3, False)]"]
  by (simp add: storedAnalysis_def updateLearningModel_def updatePatternLearning_def
      nextRowId_def Let_def)

section \<open>No validation of the pattern name\<close>

text \<open>
  Claim C8, as the code has it. \<^verbatim>\<open>updateLearningModel\<close> does not inspect the pattern
  name: for every name, the empty string included, the call goes through, the entry of
  that name exists afterwards, its \<open>feedbackCount\<close> is one more than before (one, when
  there was no entry), and so the table is never left unchanged.
\<close>

theorem C8_no_name_validation:
  "(\<exists>d. updateLearningModel learned a ok now (pattern a) = Some d
        \<and> feedbackCount d
            = (case learned (pattern a) of None \<Rightarrow> 0 | Some d0 \<Rightarrow> feedbackCount d0) + 1)
   \<and> updateLearningModel learned a ok now \<noteq> learned"
proof -
  have ex: "\<exists>d. updateLearningModel learned a ok now (pattern a) = Some d
        \<and> feedbackCount d
            = (case learned (pattern a) of None \<Rightarrow> 0 | Some d0 \<Rightarrow> feedbackCount d0) + 1"
    by (simp add: updateLearningModel_at)
  then obtain d where d1: "updateLearningModel learned a ok now (pattern a) = Some d"
    and d2: "feedbackCount d
            = (case learned (pattern a) of None \<Rightarrow> 0 | Some d0 \<Rightarrow> feedbackCount d0) + 1"
    by blast
  have "updateLearningModel learned a ok now \<noteq> learned"
  proof
    assume "updateLearningModel learned a ok now = learned"
    with d1 have "learned (pattern a) = Some d" by simp
    with d2 show False by simp
  qed
  with ex show ?thesis by blast
qed

text \<open>
  The claim as the specification states it fails at the empty name: the call on the
  empty table creates an entry for \<open>''''\<close>.
\<close>

theorem C8_empty_name_counterexample:
  "updateLearningModel Map.empty (storedAnalysis '''') True 5 ''''
     = Some \<lparr>confidenceAdjustment = 1, feedbackCount = 1, successCount = 1, lastUpdated = 5\<rparr>
   \<and> updateLearningModel Map.empty (storedAnalysis '''') True 5 \<noteq> Map.empty"
proof
  show entry: "updateLearningModel Map.empty (storedAnalysis '''') True 5 ''''
     = Some \<lparr>confidenceAdjustment = 1, feedbackCount = 1, successCount = 1, lastUpdated = 5\<rparr>"
    by (simp add: updateLearningModel_def storedAnalysis_def Let_def)
  show "updateLearningModel Map.empty (storedAnalysis '''') True 5 \<noteq> Map.empty"
  proof
    assume "updateLearningModel Map.empty (storedAnalysis '''') True 5 = Map.empty"
    then have "updateLearningModel Map.empty (storedAnalysis '''') True 5 '''' = None"
      by simp
    with entry show False by simp
  qed
qed


section \<open>Properties of the statistics blender\<close>

lemma filter_correct_of_pattern:
  "filter (\<lambda>item. feedback item = Some True) (filter (\<lambda>item. pattern item = p) hist)
     = filter (\<lambda>item. pattern item = p \<and> feedback item = Some True) hist"
  by (induction hist) auto

text \<open>
  Claim C6. \<^verbatim>\<open>generatePatternStatistics\<close> is the random baseline followed by the two
  blending steps as the specification words them: first the step for the learning state
  (taken when an entry exists with \<open>feedbackCount > 0\<close>; factor
  \<open>min (feedbackCount / 10) 0.8\<close>, rate \<open>successCount / feedbackCount * 100\<close>,
  \<open>sampleSize\<close> plus \<open>feedbackCount\<close>), then the step for the history filtered to the
  pattern (taken when it is non-empty; factor \<open>min (total / 20) 0.6\<close>, rate
  \<open>correctCount / total * 100\<close>, \<open>sampleSize\<close> plus \<open>total\<close>).
\<close>

theorem C6_blend_steps:
  "generatePatternStatistics learned p historicalAnalyses rWin rSample =
     (let ws = historyStepSpec historicalAnalyses p
                 (learningStepSpec learned p
                    (65 + js_floor (rWin * 20), 150 + js_floor (rSample * 350)))
      in \<lparr>statistics.winRate = fst ws, statistics.sampleSize = snd ws\<rparr>)"
proof (cases "learned p")
  case None
  then show ?thesis
    by (simp add: generatePatternStatistics_def historyStepSpec_def learningStepSpec_def
        blendSpec_def Let_def filter_correct_of_pattern)
next
  case (Some d)
  then show ?thesis
    by (simp add: generatePatternStatistics_def historyStepSpec_def learningStepSpec_def
        blendSpec_def Let_def filter_correct_of_pattern)
qed

subsection \<open>The range of the blended win rate\<close>

lemma blend_lower:
  fixes w rate b B lo :: real
  assumes "0 \<le> b" "b \<le> B" "B \<le> 1" "0 \<le> lo" "lo \<le> w" "0 \<le> rate"
  shows "lo * (1 - B) \<le> w * (1 - b) + rate * b"
proof -
  have "lo * (1 - B) \<le> lo * (1 - b)"
    using assms by (intro mult_left_mono) auto
  also have "\<dots> \<le> w * (1 - b)"
    using assms by (intro mult_right_mono) auto
  also have "\<dots> \<le> w * (1 - b) + rate * b"
    using assms by simp
  finally show ?thesis .
qed

lemma blend_upper:
  fixes w rate b B hi :: real
  assumes "0 \<le> b" "b \<le> B" "B \<le> 1" "w \<le> hi" "hi \<le> 100" "rate \<le> 100"
  shows "w * (1 - b) + rate * b \<le> hi * (1 - B) + 100 * B"
proof -
  have "rate * b \<le> 100 * b"
    using assms by (intro mult_right_mono) auto
  then have "w * (1 - b) + rate * b \<le> w + (100 - w) * b"
    by (simp add: algebra_simps)
  also have "\<dots> \<le> w + (100 - w) * B"
    using assms by (intro add_left_mono mult_left_mono) auto
  also have "\<dots> = w * (1 - B) + 100 * B"
    by (simp add: algebra_simps)
  also have "\<dots> \<le> hi * (1 - B) + 100 * B"
    using assms by (intro add_right_mono mult_right_mono) auto
  finally show ?thesis .
qed

lemma js_round_mono: "x \<le> y \<Longrightarrow> js_round x \<le> js_round y"
  by (simp add: js_round_def floor_mono)

lemma js_round_Ints: "js_round x \<in> \<int>"
  by (simp add: js_round_def)

lemma js_floor_random:
  assumes "isRandom r" "0 < n"
  shows "0 \<le> js_floor (r * real n)" and "js_floor (r * real n) \<le> real n - 1"
proof -
  from assms have "0 \<le> r * real n" by (simp add: isRandom_def)
  then show "0 \<le> js_floor (r * real n)" by (simp add: js_floor_def)
  from assms have "r * real n < real n" by (simp add: isRandom_def)
  then have "\<lfloor>r * real n\<rfloor> < int n" by (simp add: floor_less_iff)
  then have "\<lfloor>r * real n\<rfloor> \<le> int n - 1" by simp
  then have "real_of_int \<lfloor>r * real n\<rfloor> \<le> real_of_int (int n - 1)"
    by (rule of_int_le_iff [THEN iffD2])
  then show "js_floor (r * real n) \<le> real n - 1" by (simp add: js_floor_def)
qed


lemma blend_range:
  fixes w rate b B lo hi :: real
  assumes "0 \<le> b" "b \<le> B" "B \<le> 1" "0 \<le> lo" "lo \<le> w" "w \<le> hi" "hi \<le> 100"
    and "0 \<le> rate" "rate \<le> 100"
  shows "js_round (lo * (1 - B)) \<le> js_round (w * (1 - b) + rate * b)"
    and "js_round (w * (1 - b) + rate * b) \<le> js_round (hi * (1 - B) + 100 * B)"
  using assms by (auto intro!: js_round_mono blend_lower blend_upper)

lemma rate_range:
  fixes k n :: real
  assumes "0 \<le> k" "k \<le> n" "0 < n"
  shows "0 \<le> k / n * 100" and "k / n * 100 \<le> 100"
  using assms by (simp_all add: divide_le_eq)

text \<open>
  What the code guarantees. For draws in \<open>[0, 1)\<close>, every pattern name, every history
  and every learning table whose entries satisfy \<open>0 \<le> successCount \<le> feedbackCount\<close>,
  \<^verbatim>\<open>generatePatternStatistics\<close> returns a \<open>sampleSize\<close> of at least 150 and an integer
  \<open>winRate\<close> within \<open>[5, 99]\<close>; the \<open>winRate\<close> is within \<open>[65, 84]\<close> when the pattern has
  no learning entry and no history. Both ends of \<open>[5, 99]\<close> are reached.
\<close>

lemma generatePatternStatistics_range:
  assumes rw: "isRandom rWin" and rs: "isRandom rSample" and ok: "learnedOk learned"
  shows "5 \<le> statistics.winRate (generatePatternStatistics learned p hist rWin rSample)
       \<and> statistics.winRate (generatePatternStatistics learned p hist rWin rSample) \<le> 99
       \<and> statistics.winRate (generatePatternStatistics learned p hist rWin rSample) \<in> \<int>
       \<and> 150 \<le> statistics.sampleSize (generatePatternStatistics learned p hist rWin rSample)
       \<and> (learned p = None \<and> filter (\<lambda>item. pattern item = p) hist = [] \<longrightarrow>
            65 \<le> statistics.winRate (generatePatternStatistics learned p hist rWin rSample)
          \<and> statistics.winRate (generatePatternStatistics learned p hist rWin rSample) \<le> 84)"
proof -
  define w0 where "w0 = 65 + js_floor (rWin * 20)"
  define s0 where "s0 = 150 + js_floor (rSample * 350)"
  define learnt where "learnt =
    (case learned p of
       None \<Rightarrow> (w0, s0)
     | Some patternData \<Rightarrow>
         if feedbackCount patternData > 0
         then (js_round (w0 * (1 - min (real_of_int (feedbackCount patternData) / 10) 0.8)
                 + real_of_int (successCount patternData)
                     / real_of_int (feedbackCount patternData) * 100
                   * min (real_of_int (feedbackCount patternData) / 10) 0.8),
               s0 + real_of_int (feedbackCount patternData))
         else (w0, s0))"
  define ph where "ph = filter (\<lambda>item. pattern item = p) hist"
  define n where "n = real (length ph)"
  define k where "k = real (length (filter (\<lambda>item. feedback item = Some True) ph))"
  let ?g = "generatePatternStatistics learned p hist rWin rSample"
  have g: "?g = (if 0 < length ph
                 then \<lparr>statistics.winRate =
                         js_round (fst learnt * (1 - min (n / 20) 0.6) + k / n * 100 * min (n / 20) 0.6),
                       statistics.sampleSize = snd learnt + n\<rparr>
                 else \<lparr>statistics.winRate = fst learnt, statistics.sampleSize = snd learnt\<rparr>)"
  proof (cases "learned p")
    case None
    then show ?thesis
      by (simp add: generatePatternStatistics_def Let_def learnt_def w0_def s0_def ph_def
          n_def k_def)
  next
    case (Some d)
    then show ?thesis
      by (simp add: generatePatternStatistics_def Let_def learnt_def w0_def s0_def ph_def
          n_def k_def)
  qed
  have w0: "65 \<le> w0" "w0 \<le> 84" "w0 \<in> \<int>"
    using js_floor_random [OF rw, of 20] by (simp_all add: w0_def js_floor_def)
  have s0: "150 \<le> s0"
    using js_floor_random [OF rs, of 350] by (simp add: s0_def)
  have learnt: "13 \<le> fst learnt \<and> fst learnt \<le> 97 \<and> fst learnt \<in> \<int> \<and> 150 \<le> snd learnt"
  proof (cases "learned p")
    case None
    with w0 s0 show ?thesis by (simp add: learnt_def)
  next
    case (Some d)
    show ?thesis
    proof (cases "feedbackCount d > 0")
      case False
      with Some w0 s0 show ?thesis by (simp add: learnt_def)
    next
      case True
      from ok Some have c: "0 \<le> successCount d" "successCount d \<le> feedbackCount d"
        by (simp_all add: learnedOk_def countersOk_def)
      let ?b = "min (real_of_int (feedbackCount d) / 10) 0.8"
      let ?rate = "real_of_int (successCount d) / real_of_int (feedbackCount d) * 100"
      have b: "0 \<le> ?b" "?b \<le> 0.8" using True by simp_all
      have rate: "0 \<le> ?rate" "?rate \<le> 100"
        using rate_range [of "real_of_int (successCount d)" "real_of_int (feedbackCount d)"]
          c True by simp_all
      have "js_round (65 * (1 - 0.8)) \<le> js_round (w0 * (1 - ?b) + ?rate * ?b)"
        using blend_range(1) [of ?b "0.8" 65 w0 84 ?rate] b w0 rate by simp
      moreover have "js_round (w0 * (1 - ?b) + ?rate * ?b) \<le> js_round (84 * (1 - 0.8) + 100 * 0.8)"
        using blend_range(2) [of ?b "0.8" 65 w0 84 ?rate] b w0 rate by simp
      moreover have "js_round (65 * (1 - 0.8)) = 13" "js_round (84 * (1 - 0.8) + 100 * 0.8) = 97"
        by (simp_all add: js_round_def)
      ultimately have "13 \<le> js_round (w0 * (1 - ?b) + ?rate * ?b)"
        "js_round (w0 * (1 - ?b) + ?rate * ?b) \<le> 97"
        by simp_all
      with Some True s0 show ?thesis
        by (simp add: learnt_def js_round_Ints)
    qed
  qed
  have final: "5 \<le> statistics.winRate ?g \<and> statistics.winRate ?g \<le> 99
      \<and> statistics.winRate ?g \<in> \<int> \<and> 150 \<le> statistics.sampleSize ?g"
  proof (cases "0 < length ph")
    case False
    with g learnt show ?thesis by simp
  next
    case True
    then have npos: "0 < n" by (simp add: n_def)
    have kn: "0 \<le> k" "k \<le> n"
      by (simp_all add: k_def n_def)
    let ?b = "min (n / 20) 0.6"
    let ?rate = "k / n * 100"
    have b: "0 \<le> ?b" "?b \<le> 0.6" using npos by simp_all
    have rate: "0 \<le> ?rate" "?rate \<le> 100"
      using rate_range [of k n] kn npos by simp_all
    have "js_round (13 * (1 - 0.6)) \<le> js_round (fst learnt * (1 - ?b) + ?rate * ?b)"
      using blend_range(1) [of ?b "0.6" 13 "fst learnt" 97 ?rate] b learnt rate by simp
    moreover have "js_round (fst learnt * (1 - ?b) + ?rate * ?b)
        \<le> js_round (97 * (1 - 0.6) + 100 * 0.6)"
      using blend_range(2) [of ?b "0.6" 13 "fst learnt" 97 ?rate] b learnt rate by simp
    moreover have "js_round (13 * (1 - 0.6)) = 5" "js_round (97 * (1 - 0.6) + 100 * 0.6) = 99"
      by (simp_all add: js_round_def)
    ultimately have "5 \<le> js_round (fst learnt * (1 - ?b) + ?rate * ?b)"
      "js_round (fst learnt * (1 - ?b) + ?rate * ?b) \<le> 99"
      by simp_all
    with g True learnt npos show ?thesis
      by (simp add: js_round_Ints)
  qed
  have plain: "learned p = None \<and> filter (\<lambda>item. pattern item = p) hist = [] \<longrightarrow>
      65 \<le> statistics.winRate ?g \<and> statistics.winRate ?g \<le> 84"
    using g w0 by (auto simp: learnt_def ph_def)
  from final plain show ?thesis by blast
qed

text \<open>
  Claim C3. The win rate leaves \<open>[50, 90]\<close>: the function does not clamp the blended
  value. After five incorrect feedbacks for a pattern, with the baseline 66 and no
  history, it returns 33; with nothing learned, the baseline 65 and a history of twelve
  incorrect outcomes of the pattern, it returns 26. The sample size is at least 150 in
  both cases.
\<close>

theorem C3_winRate_below_50:
  "generatePatternStatistics
      (feedbackRun Map.empty (replicate 5 (storedAnalysis ''RSI Divergence'', False, 0)))
      ''RSI Divergence'' [] (1 / 16) 0
     = \<lparr>statistics.winRate = 33, statistics.sampleSize = 155\<rparr>
   \<and> generatePatternStatistics Map.empty ''Doji Formation''
      (replicate 12 (historyItem ''Doji Formation'' (Some False))) 0 0
     = \<lparr>statistics.winRate = 26, statistics.sampleSize = 162\<rparr>"
  by code_simp


section \<open>Properties of the pattern selector\<close>

lemma selectLoop_in:
  "selectLoop rand c items s \<in> insert s (fst ` set items)"
  by (induction items arbitrary: c) auto

lemma fst_normalizedWeights:
  "map fst (normalizedWeights (patternWeights learned profiles info hist ps)) = ps"
  by (simp add: normalizedWeights_def patternWeights_def comp_def)

lemma js_index_Some:
  assumes "0 \<le> i" "i < int (length xs)"
  shows "\<exists>x. js_index xs i = Some x \<and> x \<in> set xs"
  using assms by (simp add: js_index_def)

lemma category_patterns:
  assumes "(c, ps) \<in> set MARKET_PATTERNS"
  shows "ps \<noteq> []" and "set ps \<subseteq> set taxonomy"
  using assms by (auto simp: MARKET_PATTERNS_def taxonomy_def)

lemma length_MARKET_PATTERNS: "length MARKET_PATTERNS = 5"
  by (simp add: MARKET_PATTERNS_def)

lemma taxonomy_27: "distinct taxonomy \<and> length taxonomy = 27"
  by (simp add: taxonomy_def MARKET_PATTERNS_def)

lemma category_index:
  assumes "isRandom r"
  shows "0 \<le> \<lfloor>r * real (length MARKET_PATTERNS)\<rfloor>"
    and "\<lfloor>r * real (length MARKET_PATTERNS)\<rfloor> < int (length MARKET_PATTERNS)"
proof -
  from assms have "0 \<le> r * 5" "r * 5 < 5" by (simp_all add: isRandom_def)
  then show "0 \<le> \<lfloor>r * real (length MARKET_PATTERNS)\<rfloor>"
    and "\<lfloor>r * real (length MARKET_PATTERNS)\<rfloor> < int (length MARKET_PATTERNS)"
    by (simp_all add: length_MARKET_PATTERNS floor_less_iff)
qed

lemma enhancedPatternRecognition_category:
  assumes "isRandom rCategory"
  shows "\<exists>c ps. (c, ps) \<in> set MARKET_PATTERNS
           \<and> enhancedPatternRecognition learned profiles img info hist
               rCategory rand rConfidence rDirection
             = Inr \<lparr>pattern =
                      selectLoop rand (Fin 0)
                        (normalizedWeights (patternWeights learned profiles info hist ps))
                        (hd ps),
                    prediction = fst (priceSignal profiles info rConfidence rDirection),
                    confidence =
                      max 50 (min 95
                        (learnedConfidence learned
                           (selectLoop rand (Fin 0)
                              (normalizedWeights (patternWeights learned profiles info hist ps))
                              (hd ps))
                           (snd (priceSignal profiles info rConfidence rDirection))))\<rparr>"
proof -
  obtain c ps where idx:
      "js_index MARKET_PATTERNS \<lfloor>rCategory * real (length MARKET_PATTERNS)\<rfloor> = Some (c, ps)"
    and mem: "(c, ps) \<in> set MARKET_PATTERNS"
    using js_index_Some [OF category_index [OF assms]] by (metis surj_pair)
  from idx have "enhancedPatternRecognition learned profiles img info hist
               rCategory rand rConfidence rDirection
             = Inr \<lparr>pattern =
                      selectLoop rand (Fin 0)
                        (normalizedWeights (patternWeights learned profiles info hist ps))
                        (hd ps),
                    prediction = fst (priceSignal profiles info rConfidence rDirection),
                    confidence =
                      max 50 (min 95
                        (learnedConfidence learned
                           (selectLoop rand (Fin 0)
                              (normalizedWeights (patternWeights learned profiles info hist ps))
                              (hd ps))
                           (snd (priceSignal profiles info rConfidence rDirection))))\<rparr>"
    by (simp add: enhancedPatternRecognition_def Let_def split: prod.split)
  with mem show ?thesis by blast
qed

text \<open>
  Claim C2, as the code has it. For every state of the two tables, every trading
  information and history, and every draw (the category draw in \<open>[0, 1)\<close>, the other
  draws arbitrary), \<^verbatim>\<open>enhancedPatternRecognition\<close> returns, its pattern is a name of
  \<^verbatim>\<open>MARKET_PATTERNS\<close> and its confidence is within \<open>[50, 95]\<close>. The taxonomy has 27
  distinct names (5 + 5 + 5 + 5 + 7), not 25.
\<close>

theorem C2_selector_range:
  assumes "isRandom rCategory"
  shows "(\<exists>r. enhancedPatternRecognition learned profiles img info hist
               rCategory rand rConfidence rDirection = Inr r
            \<and> pattern r \<in> set taxonomy \<and> 50 \<le> confidence r \<and> confidence r \<le> 95)
       \<and> distinct taxonomy \<and> length taxonomy = 27"
proof -
  obtain c ps where mem: "(c, ps) \<in> set MARKET_PATTERNS"
    and res: "enhancedPatternRecognition learned profiles img info hist
               rCategory rand rConfidence rDirection
             = Inr \<lparr>pattern =
                      selectLoop rand (Fin 0)
                        (normalizedWeights (patternWeights learned profiles info hist ps))
                        (hd ps),
                    prediction = fst (priceSignal profiles info rConfidence rDirection),
                    confidence =
                      max 50 (min 95
                        (learnedConfidence learned
                           (selectLoop rand (Fin 0)
                              (normalizedWeights (patternWeights learned profiles info hist ps))
                              (hd ps))
                           (snd (priceSignal profiles info rConfidence rDirection))))\<rparr>"
    using enhancedPatternRecognition_category [OF assms] by blast
  let ?items = "normalizedWeights (patternWeights learned profiles info hist ps)"
  let ?sel = "selectLoop rand (Fin 0) ?items (hd ps)"
  have "?sel \<in> insert (hd ps) (fst ` set ?items)" by (rule selectLoop_in)
  moreover have "fst ` set ?items = set ps"
    using fst_normalizedWeights [of learned profiles info hist ps]
    by (metis set_map)
  moreover have "hd ps \<in> set ps" using category_patterns(1) [OF mem] by simp
  ultimately have "?sel \<in> set taxonomy"
    using category_patterns(2) [OF mem] by auto
  with res have "\<exists>r. enhancedPatternRecognition learned profiles img info hist
               rCategory rand rConfidence rDirection = Inr r
            \<and> pattern r \<in> set taxonomy \<and> 50 \<le> confidence r \<and> confidence r \<le> 95"
    by simp
  with taxonomy_27 show ?thesis by blast
qed

theorem C2_selector_range_witness:
  "isRandom (9 / 10)
   \<and> enhancedPatternRecognition Map.empty Map.empty [] (pricedInfo ''BTC/USD'' 61000) []
        (9 / 10) (99 / 100) (1 / 2) (3 / 10)
      = Inr \<lparr>pattern = ''Doji Formation'', prediction = ''bearish'', confidence = 75\<rparr>
   \<and> ''Doji Formation'' \<in> set taxonomy"
proof -
  have r: "isRandom (9 / 10)" by (simp add: isRandom_def)
  have v: "enhancedPatternRecognition Map.empty Map.empty [] (pricedInfo ''BTC/USD'' 61000) []
        (9 / 10) (99 / 100) (1 / 2) (3 / 10)
      = Inr \<lparr>pattern = ''Doji Formation'', prediction = ''bearish'', confidence = 75\<rparr>"
    by code_simp
  from C2_selector_range [OF r, of Map.empty Map.empty "[]" "pricedInfo ''BTC/USD'' 61000" "[]"
      "99 / 100" "1 / 2" "3 / 10"] r v
  show ?thesis by auto
qed

text \<open>
  No set of 25 names holds every result: with nothing learned, the 27 pairs of draws of
  \<open>taxonomyDraws\<close> make the selector return the 27 distinct names of the taxonomy, one
  after the other.
\<close>

theorem C2_all_27_names_counterexample:
  "distinct taxonomy \<and> length taxonomy = 27 \<and> map selectAt taxonomyDraws = map Some taxonomy"
  by code_simp


text \<open>
  Claim C9 at two states the feedback route reaches. In the first, each of the five
  continuation patterns has received one incorrect feedback: every weight is
  \<open>(1 - 1) * 0.5 = 0\<close>, so \<^verbatim>\<open>totalWeight\<close> is zero and the normalisation divides zero by
  zero; all five normalised weights are \<^verbatim>\<open>NaN\<close>, no comparison with the draw succeeds,
  and the selector returns \<^verbatim>\<open>patterns[0]\<close> although the draw 0.99 lies in the last
  pattern's share. In the second, one pattern has received nine incorrect feedbacks:
  the weights are 1, 1, 1, 1 and \<open>(1 - 9) * 0.5 = -4\<close>, their sum is zero again, and the
  quotients are infinite. Nothing is thrown.
\<close>

theorem C9_zero_total_weight:
  "totalWeight (patternWeights (oneIncorrectEach (snd (MARKET_PATTERNS ! 0))) Map.empty
      (pricedInfo ''BTC/USD'' 61000) [] (snd (MARKET_PATTERNS ! 0))) = 0
   \<and> map snd (normalizedWeights (patternWeights (oneIncorrectEach (snd (MARKET_PATTERNS ! 0)))
        Map.empty (pricedInfo ''BTC/USD'' 61000) [] (snd (MARKET_PATTERNS ! 0))))
      = [NaN, NaN, NaN, NaN, NaN]
   \<and> enhancedPatternRecognition (oneIncorrectEach (snd (MARKET_PATTERNS ! 0))) Map.empty []
        (pricedInfo ''BTC/USD'' 61000) [] (1 / 10) (99 / 100) (1 / 2) (3 / 10)
      = Inr \<lparr>pattern = ''Higher Highs & Higher Lows (Uptrend)'', prediction = ''bearish'',
              confidence = 64\<rparr>
   \<and> map snd (patternWeights
        (feedbackRun Map.empty (replicate 9 (storedAnalysis ''Bollinger Band Squeeze'', False, 0)))
        Map.empty (pricedInfo ''BTC/USD'' 61000) [] (snd (MARKET_PATTERNS ! 0)))
      = [1, 1, 1, 1, - 4]
   \<and> map snd (normalizedWeights (patternWeights
        (feedbackRun Map.empty (replicate 9 (storedAnalysis ''Bollinger Band Squeeze'', False, 0)))
        Map.empty (pricedInfo ''BTC/USD'' 61000) [] (snd (MARKET_PATTERNS ! 0))))
      = [PosInf, PosInf, PosInf, PosInf, NegInf]"
  by code_simp


section \<open>Properties of the profile updater\<close>

text \<open>
  What the code does. For a pair without a profile, a call with a price \<open>e1 \<noteq> 0\<close>
  creates the profile with \<open>lastSeenPrice = e1\<close>, \<open>volatility = 0.02\<close> and an empty
  \<open>patterns\<close> object: the creating call does not count its pattern. A second call for
  the same pair with a price \<open>e2 \<noteq> 0\<close> and the same pattern sets
  \<open>volatility = 0.02 * 0.7 + |e2 / e1 - 1| * 0.3\<close>, \<open>lastSeenPrice = e2\<close> and the
  pattern's count to 1.
\<close>

lemma updatePairProfile_twice:
  assumes "profiles (pair i1) = None" and "entry i1 = Some e1" and "e1 \<noteq> 0"
    and "pair i2 = pair i1" and "entry i2 = Some e2" and "e2 \<noteq> 0"
  shows "(\<exists>pr. updatePairProfile profiles i1 p t1 (pair i1) = Some pr
            \<and> lastSeenPrice pr = e1 \<and> volatility pr = 0.02 \<and> patterns pr = Map.empty)
       \<and> (\<exists>pr. updatePairProfile (updatePairProfile profiles i1 p t1) i2 p t2 (pair i1) = Some pr
            \<and> lastSeenPrice pr = e2
            \<and> volatility pr = 0.02 * 0.7 + \<bar>e2 / e1 - 1\<bar> * 0.3
            \<and> patterns pr = [p \<mapsto> 1])"
proof
  show "\<exists>pr. updatePairProfile profiles i1 p t1 (pair i1) = Some pr
            \<and> lastSeenPrice pr = e1 \<and> volatility pr = 0.02 \<and> patterns pr = Map.empty"
    using assms(1-3) by (simp add: updatePairProfile_def orElse_def)
next
  let ?first = "updatePairProfile profiles i1 p t1"
  have first: "?first (pair i2) =
      Some \<lparr>patterns = Map.empty, volatility = 0.02, lastSeenPrice = e1,
            firstSeenDate = t1, pairUpdated = t1\<rparr>"
    using assms(1-4) by (simp add: updatePairProfile_def orElse_def)
  show "\<exists>pr. updatePairProfile ?first i2 p t2 (pair i1) = Some pr
            \<and> lastSeenPrice pr = e2
            \<and> volatility pr = 0.02 * 0.7 + \<bar>e2 / e1 - 1\<bar> * 0.3
            \<and> patterns pr = [p \<mapsto> 1]"
    using first assms(3-6) by (simp add: updatePairProfile_def [of ?first] orElse_def Let_def)
qed

text \<open>
  Claim C4. In the scenario of the specification the first call creates the profile
  with \<open>lastSeenPrice = 61000\<close> and \<open>volatility = 0.02\<close>, and the second sets
  \<open>volatility = 0.02 * 0.7 + (62200 / 61000 - 1) * 0.3\<close>, which is \<open>607 / 30500\<close>, about
  0.0199. The occurrence counts are one behind: after the first call the profile holds
  no count for the pattern (the specification says 1), after the second the count is 1
  (the specification says 2).
\<close>

theorem C4_first_call_counts_nothing:
  "updatePairProfile Map.empty (pricedInfo ''BTC/USD'' 61000)
       ''Bollinger Band Squeeze'' 1 ''BTC/USD''
     = Some \<lparr>patterns = Map.empty, volatility = 0.02, lastSeenPrice = 61000,
             firstSeenDate = 1, pairUpdated = 1\<rparr>
   \<and> patternCount
       (updatePairProfile Map.empty (pricedInfo ''BTC/USD'' 61000)
          ''Bollinger Band Squeeze'' 1)
       ''BTC/USD'' ''Bollinger Band Squeeze'' = None
   \<and> updatePairProfile
       (updatePairProfile Map.empty (pricedInfo ''BTC/USD'' 61000)
          ''Bollinger Band Squeeze'' 1)
       (pricedInfo ''BTC/USD'' 62200) ''Bollinger Band Squeeze'' 2 ''BTC/USD''
     = Some \<lparr>patterns = [''Bollinger Band Squeeze'' \<mapsto> 1],
             volatility = 0.02 * 0.7 + (62200 / 61000 - 1) * 0.3,
             lastSeenPrice = 62200, firstSeenDate = 1, pairUpdated = 2\<rparr>
   \<and> patternCount
       (updatePairProfile
          (updatePairProfile Map.empty (pricedInfo ''BTC/USD'' 61000)
             ''Bollinger Band Squeeze'' 1)
          (pricedInfo ''BTC/USD'' 62200) ''Bollinger Band Squeeze'' 2)
       ''BTC/USD'' ''Bollinger Band Squeeze'' = Some 1
   \<and> fst (analyzeChartImage Map.empty Map.empty noExplanation (pricedInfo ''BTC/USD'' 61000) 1
            (1 / 10) (99 / 100) (1 / 2) (3 / 10) 0 0 ''data:image/png;base64,iVBORw0KGgo='' [])
     = Inr \<lparr>pattern = ''Bollinger Band Squeeze'', prediction = ''bearish'', confidence = 75,
            winRate = 65, sampleSize = 150, explanation = ''''\<rparr>
   \<and> patternCount
       (snd (analyzeChartImage Map.empty Map.empty noExplanation (pricedInfo ''BTC/USD'' 61000) 1
               (1 / 10) (99 / 100) (1 / 2) (3 / 10) 0 0 ''data:image/png;base64,iVBORw0KGgo='' []))
       ''BTC/USD'' ''Bollinger Band Squeeze'' = None"
proof -
  have profile: "updatePairProfile Map.empty (pricedInfo ''BTC/USD'' 61000)
       ''Bollinger Band Squeeze'' 1 ''BTC/USD''
     = Some \<lparr>patterns = Map.empty, volatility = 0.02, lastSeenPrice = 61000,
             firstSeenDate = 1, pairUpdated = 1\<rparr>"
    by (simp add: updatePairProfile_def pricedInfo_def orElse_def)
  have second: "updatePairProfile
       (updatePairProfile Map.empty (pricedInfo ''BTC/USD'' 61000)
          ''Bollinger Band Squeeze'' 1)
       (pricedInfo ''BTC/USD'' 62200) ''Bollinger Band Squeeze'' 2 ''BTC/USD''
     = Some \<lparr>patterns = [''Bollinger Band Squeeze'' \<mapsto> 1],
             volatility = 0.02 * 0.7 + (62200 / 61000 - 1) * 0.3,
             lastSeenPrice = 62200, firstSeenDate = 1, pairUpdated = 2\<rparr>"
    by (simp add: updatePairProfile_def pricedInfo_def orElse_def Let_def)
  have analysed: "fst (analyzeChartImage Map.empty Map.empty noExplanation
            (pricedInfo ''BTC/USD'' 61000) 1
            (1 / 10) (99 / 100) (1 / 2) (3 / 10) 0 0 ''data:image/png;base64,iVBORw0KGgo='' [])
     = Inr \<lparr>pattern = ''Bollinger Band Squeeze'', prediction = ''bearish'', confidence = 75,
            winRate = 65, sampleSize = 150, explanation = ''''\<rparr>"
    by code_simp
  have selected: "enhancedPatternRecognition Map.empty Map.empty
      ''data:image/png;base64,iVBORw0KGgo='' (pricedInfo ''BTC/USD'' 61000) []
      (1 / 10) (99 / 100) (1 / 2) (3 / 10)
     = Inr \<lparr>pattern = ''Bollinger Band Squeeze'', prediction = ''bearish'', confidence = 75\<rparr>"
    by code_simp
  have after: "snd (analyzeChartImage Map.empty Map.empty noExplanation
            (pricedInfo ''BTC/USD'' 61000) 1
            (1 / 10) (99 / 100) (1 / 2) (3 / 10) 0 0 ''data:image/png;base64,iVBORw0KGgo='' [])
     = updatePairProfile Map.empty (pricedInfo ''BTC/USD'' 61000) ''Bollinger Band Squeeze'' 1"
    by (simp add: analyzeChartImage_def selected Let_def)
  show ?thesis
    unfolding after
    using profile second analysed by (simp add: patternCount_def)
qed


section \<open>Properties of the wrapper\<close>

lemma simulatedWith_returns:
  assumes "isRandom rCategory"
  shows "\<exists>a. simulatedWith learned profiles explain info now
               rCategory rand rConfidence rDirection rWin rSample img history = Inr a"
proof -
  obtain r where "enhancedPatternRecognition learned profiles img info history
               rCategory rand rConfidence rDirection = Inr r"
    using enhancedPatternRecognition_category [OF assms] by blast
  then show ?thesis
    by (simp add: simulatedWith_def analyzeChartImage_def Let_def)
qed

text \<open>
  Claim C7. With an API key configured and the history fetched, when
  \<^verbatim>\<open>analyzeChartWithOpenAI\<close> throws, \<^verbatim>\<open>analyzeChart\<close> behaves exactly as on the path without
  a key: the thrown value is dropped and the outcome is that of the simulated analyzer.
  When the simulated analyzer returns an analysis, \<^verbatim>\<open>analyzeChart\<close> returns it, normalised;
  and the simulated analyzer of this repository, \<^verbatim>\<open>analyzeChartImage\<close>, does return one
  for every state and every draw, so the request does not fail.
\<close>

theorem C7_openai_failure_falls_back:
  assumes "apiKey = Some k" and "k \<noteq> ''''"
    and "analyzeChartWithOpenAI (cleanImage img) history = Inl openaiError"
  shows "analyzeChart apiKey (Inr history) analyzeChartWithOpenAI simulated img
           = analyzeChart None (Inr history) analyzeChartWithOpenAI simulated img
       \<and> (\<forall>a. simulated (cleanImage img) history = Inr a \<longrightarrow>
             analyzeChart apiKey (Inr history) analyzeChartWithOpenAI simulated img
               = Inr (normalizeAnalysis a))
       \<and> (isRandom rCategory \<longrightarrow>
            (\<exists>a. simulatedWith learned profiles explain info now
                    rCategory rand rConfidence rDirection rWin rSample
                    (cleanImage img) history = Inr a
                \<and> analyzeChart apiKey (Inr history) analyzeChartWithOpenAI
                    (simulatedWith learned profiles explain info now
                       rCategory rand rConfidence rDirection rWin rSample) img
                  = Inr (normalizeAnalysis a)))"
proof (intro conjI allI impI)
  show "analyzeChart apiKey (Inr history) analyzeChartWithOpenAI simulated img
           = analyzeChart None (Inr history) analyzeChartWithOpenAI simulated img"
    using assms by (simp add: analyzeChart_def)
next
  fix a
  assume "simulated (cleanImage img) history = Inr a"
  with assms
  show "analyzeChart apiKey (Inr history) analyzeChartWithOpenAI simulated img
               = Inr (normalizeAnalysis a)"
    by (simp add: analyzeChart_def)
next
  assume "isRandom rCategory"
  then obtain a where a: "simulatedWith learned profiles explain info now
                    rCategory rand rConfidence rDirection rWin rSample
                    (cleanImage img) history = Inr a"
    using simulatedWith_returns by blast
  with assms
  have "analyzeChart apiKey (Inr history) analyzeChartWithOpenAI
                    (simulatedWith learned profiles explain info now
                       rCategory rand rConfidence rDirection rWin rSample) img
                  = Inr (normalizeAnalysis a)"
    by (simp add: analyzeChart_def)
  with a show "\<exists>a. simulatedWith learned profiles explain info now
                    rCategory rand rConfidence rDirection rWin rSample
                    (cleanImage img) history = Inr a
                \<and> analyzeChart apiKey (Inr history) analyzeChartWithOpenAI
                    (simulatedWith learned profiles explain info now
                       rCategory rand rConfidence rDirection rWin rSample) img
                  = Inr (normalizeAnalysis a)"
    by blast
qed

theorem C7_openai_failure_falls_back_witness:
  "analyzeChart (Some ''sk-test'') (Inr []) openaiDown
     (simulatedWith Map.empty Map.empty noExplanation (pricedInfo ''BTC/USD'' 61000) 1
        (9 / 10) (99 / 100) (1 / 2) (3 / 10) 0 0) ''iVBORw0KGgo=''
   = Inr \<lparr>jsAnalysis.pattern = ''Doji Formation'', jsAnalysis.prediction = ''bearish'',
          jsAnalysis.confidence = Fin 75, jsAnalysis.winRate = Fin 65,
          jsAnalysis.sampleSize = Fin 150, jsAnalysis.explanation = ''''\<rparr>"
proof -
  have r: "isRandom (9 / 10)" by (simp add: isRandom_def)
  have down: "openaiDown (cleanImage ''iVBORw0KGgo='') []
      = Inl (Error ''Failed to analyze chart with OpenAI: Connection error.'')"
    by (simp add: openaiDown_def)
  have sim: "simulatedWith Map.empty Map.empty noExplanation (pricedInfo ''BTC/USD'' 61000) 1
        (9 / 10) (99 / 100) (1 / 2) (3 / 10) 0 0 (cleanImage ''iVBORw0KGgo='') []
      = Inr \<lparr>jsAnalysis.pattern = ''Doji Formation'', jsAnalysis.prediction = ''bearish'',
          jsAnalysis.confidence = Fin 75, jsAnalysis.winRate = Fin 65,
          jsAnalysis.sampleSize = Fin 150, jsAnalysis.explanation = ''''\<rparr>"
    by code_simp
  have norm: "normalizeAnalysis
        \<lparr>jsAnalysis.pattern = ''Doji Formation'', jsAnalysis.prediction = ''bearish'',
          jsAnalysis.confidence = Fin 75, jsAnalysis.winRate = Fin 65,
          jsAnalysis.sampleSize = Fin 150, jsAnalysis.explanation = ''''\<rparr>
      = \<lparr>jsAnalysis.pattern = ''Doji Formation'', jsAnalysis.prediction = ''bearish'',
          jsAnalysis.confidence = Fin 75, jsAnalysis.winRate = Fin 65,
          jsAnalysis.sampleSize = Fin 150, jsAnalysis.explanation = ''''\<rparr>"
    by code_simp
  have key: "Some ''sk-test'' = Some ''sk-test''" "''sk-test'' \<noteq> ''''" by simp_all
  have "\<forall>a. simulatedWith Map.empty Map.empty noExplanation (pricedInfo ''BTC/USD'' 61000) 1
          (9 / 10) (99 / 100) (1 / 2) (3 / 10) 0 0 (cleanImage ''iVBORw0KGgo='') [] = Inr a \<longrightarrow>
        analyzeChart (Some ''sk-test'') (Inr []) openaiDown
          (simulatedWith Map.empty Map.empty noExplanation (pricedInfo ''BTC/USD'' 61000) 1
             (9 / 10) (99 / 100) (1 / 2) (3 / 10) 0 0) ''iVBORw0KGgo=''
          = Inr (normalizeAnalysis a)"
    using C7_openai_failure_falls_back
      [where apiKey = "Some ''sk-test''" and k = "''sk-test''"
         and analyzeChartWithOpenAI = openaiDown and img = "''iVBORw0KGgo=''"
         and history = "[]"
         and simulated = "simulatedWith Map.empty Map.empty noExplanation
             (pricedInfo ''BTC/USD'' 61000) 1 (9 / 10) (99 / 100) (1 / 2) (3 / 10) 0 0",
       OF key down]
    by (rule conjunct2 [THEN conjunct1])
  with sim have "analyzeChart (Some ''sk-test'') (Inr []) openaiDown
          (simulatedWith Map.empty Map.empty noExplanation (pricedInfo ''BTC/USD'' 61000) 1
             (9 / 10) (99 / 100) (1 / 2) (3 / 10) 0 0) ''iVBORw0KGgo=''
          = Inr (normalizeAnalysis
               \<lparr>jsAnalysis.pattern = ''Doji Formation'', jsAnalysis.prediction = ''bearish'',
                 jsAnalysis.confidence = Fin 75, jsAnalysis.winRate = Fin 65,
                 jsAnalysis.sampleSize = Fin 150, jsAnalysis.explanation = ''''\<rparr>)"
    by blast
  with norm show ?thesis by simp
qed

subsection \<open>Rounding and clamping\<close>

text \<open>
  What \<^verbatim>\<open>Math.min(hi, Math.max(lo, Math.round(x)))\<close> is for each kind of number: a
  finite number is rounded and clamped, the infinities become the bounds, and \<^verbatim>\<open>NaN\<close>
  stays \<^verbatim>\<open>NaN\<close>.
\<close>

lemma clamp_rounded:
  assumes "lo \<le> hi"
  shows "Math_min (Fin hi) (Math_max (Fin lo) (Math_round x))
           = (case x of Fin v \<Rightarrow> Fin (min hi (max lo (js_round v)))
              | PosInf \<Rightarrow> Fin hi | NegInf \<Rightarrow> Fin lo | NaN \<Rightarrow> NaN)"
  using assms by (cases x) simp_all

lemma clamp_rounded_range:
  assumes "lo \<le> hi" and "lo \<in> \<int>" and "hi \<in> \<int>"
    and "Math_min (Fin hi) (Math_max (Fin lo) (Math_round x)) = y"
  shows "(x = NaN \<and> y = NaN) \<or> (\<exists>v. y = Fin v \<and> v \<in> \<int> \<and> lo \<le> v \<and> v \<le> hi)"
proof (cases x)
  case (Fin v)
  with assms show ?thesis
    by (auto simp: min_def max_def js_round_def)
qed (use assms in auto)

text \<open>
  What the wrapper returns is the normalised object of an analyzer, so each of its
  three numbers is \<^verbatim>\<open>NaN\<close>, when the analyzer's number is \<^verbatim>\<open>NaN\<close>, or an integer in
  the range of the field.
\<close>

lemma analyzeChart_normalizes:
  assumes "analyzeChart apiKey getAnalysisHistory analyzeChartWithOpenAI simulated img = Inr r"
  shows "\<exists>history a. getAnalysisHistory = Inr history \<and> r = normalizeAnalysis a
           \<and> (analyzeChartWithOpenAI (cleanImage img) history = Inr a
                \<or> simulated (cleanImage img) history = Inr a)"
  using assms by (auto simp: analyzeChart_def split: sum.splits if_splits)

lemma normalizeAnalysis_numbers:
  "(jsAnalysis.confidence a = NaN \<and> jsAnalysis.confidence (normalizeAnalysis a) = NaN
      \<or> (\<exists>v. jsAnalysis.confidence (normalizeAnalysis a) = Fin v
               \<and> v \<in> \<int> \<and> 1 \<le> v \<and> v \<le> 100))
   \<and> (jsAnalysis.winRate a = NaN \<and> jsAnalysis.winRate (normalizeAnalysis a) = NaN
      \<or> (\<exists>v. jsAnalysis.winRate (normalizeAnalysis a) = Fin v
               \<and> v \<in> \<int> \<and> 50 \<le> v \<and> v \<le> 90))
   \<and> (jsAnalysis.sampleSize a = NaN \<and> jsAnalysis.sampleSize (normalizeAnalysis a) = NaN
      \<or> (\<exists>v. jsAnalysis.sampleSize (normalizeAnalysis a) = Fin v
               \<and> v \<in> \<int> \<and> 50 \<le> v \<and> v \<le> 500))"
  using clamp_rounded_range [of 1 100 "jsAnalysis.confidence a"]
    clamp_rounded_range [of 50 90 "jsAnalysis.winRate a"]
    clamp_rounded_range [of 50 500 "jsAnalysis.sampleSize a"]
  by (simp add: normalizeAnalysis_def)

text \<open>
  On the simulated path the numbers are finite, and the wrapper returns each of them
  rounded and clamped.
\<close>

lemma normalizeAnalysis_received:
  "normalizeAnalysis (received a)
     = \<lparr>jsAnalysis.pattern = pattern a,
        jsAnalysis.prediction =
          (if prediction a \<noteq> ''bullish'' \<and> prediction a \<noteq> ''bearish''
           then (if js_includes (toLowerCase (prediction a)) ''bull''
                 then ''bullish'' else ''bearish'')
           else prediction a),
        jsAnalysis.confidence = Fin (min 100 (max 1 (js_round (confidence a)))),
        jsAnalysis.winRate = Fin (min 90 (max 50 (js_round (winRate a)))),
        jsAnalysis.sampleSize = Fin (min 500 (max 50 (js_round (sampleSize a)))),
        jsAnalysis.explanation = explanation a\<rparr>"
  by (simp add: normalizeAnalysis_def received_def)

text \<open>
  Claim C10. On the simulated path the wrapper rounds and clamps: where the statistics
  blender returns the win rate 26, \<^verbatim>\<open>analyzeChart\<close> returns 50. On the path of the
  external analyzer it does not hold: when the vision model answers with a confidence
  and a win rate that are texts such as \<^verbatim>\<open>75%\<close>, \<^verbatim>\<open>Number\<close> makes them \<^verbatim>\<open>NaN\<close>, the clamps
  of \<^verbatim>\<open>analyzeChartWithOpenAI\<close> return \<^verbatim>\<open>NaN\<close>, and so do the clamps of \<^verbatim>\<open>analyzeChart\<close>:
  the returned confidence and win rate are \<^verbatim>\<open>NaN\<close>, not integers of their ranges.
\<close>

theorem C10_nan_passes_the_clamps:
  "simulatedWith Map.empty Map.empty noExplanation (pricedInfo ''BTC/USD'' 61000) 1
      (9 / 10) (99 / 100) (1 / 2) (3 / 10) 0 0 (cleanImage ''iVBORw0KGgo='')
      (replicate 12 (historyItem ''Doji Formation'' (Some False)))
     = Inr \<lparr>jsAnalysis.pattern = ''Doji Formation'', jsAnalysis.prediction = ''bearish'',
            jsAnalysis.confidence = Fin 75, jsAnalysis.winRate = Fin 26,
            jsAnalysis.sampleSize = Fin 162, jsAnalysis.explanation = ''''\<rparr>
   \<and> analyzeChart None (Inr (replicate 12 (historyItem ''Doji Formation'' (Some False))))
        openaiDown
        (simulatedWith Map.empty Map.empty noExplanation (pricedInfo ''BTC/USD'' 61000) 1
           (9 / 10) (99 / 100) (1 / 2) (3 / 10) 0 0) ''iVBORw0KGgo=''
     = Inr \<lparr>jsAnalysis.pattern = ''Doji Formation'', jsAnalysis.prediction = ''bearish'',
            jsAnalysis.confidence = Fin 75, jsAnalysis.winRate = Fin 50,
            jsAnalysis.sampleSize = Fin 162, jsAnalysis.explanation = ''''\<rparr>
   \<and> openaiAnalysis ''Doji Formation'' ''bullish'' NaN NaN (Fin 250) ''Indecision.''
     = \<lparr>jsAnalysis.pattern = ''Doji Formation'', jsAnalysis.prediction = ''bullish'',
        jsAnalysis.confidence = NaN, jsAnalysis.winRate = NaN,
        jsAnalysis.sampleSize = Fin 250, jsAnalysis.explanation = ''Indecision.''\<rparr>
   \<and> analyzeChart (Some ''sk-test'') (Inr [])
        (openaiReturns
           (openaiAnalysis ''Doji Formation'' ''bullish'' NaN NaN (Fin 250) ''Indecision.''))
        (simulatedWith Map.empty Map.empty noExplanation (pricedInfo ''BTC/USD'' 61000) 1
           (9 / 10) (99 / 100) (1 / 2) (3 / 10) 0 0) ''iVBORw0KGgo=''
     = Inr \<lparr>jsAnalysis.pattern = ''Doji Formation'', jsAnalysis.prediction = ''bullish'',
            jsAnalysis.confidence = NaN, jsAnalysis.winRate = NaN,
            jsAnalysis.sampleSize = Fin 250, jsAnalysis.explanation = ''Indecision.''\<rparr>"
  by code_simp



end

